theory Spec2Isabelle
  imports Main
begin

section \<open>Data model\<close>

text \<open>
  The repository has two copies of the control \<^verbatim>\<open>KanbanBoard\<close>: the control with
  dataset support and optimistic moves, and the earlier \<^verbatim>\<open>KanbanBoard/index.ts\<close>. The
  definitions below follow the first and keep its names; where the second has a different
  text for a method, its definition has the suffix \<open>_KB\<close>.

  The interfaces \<^verbatim>\<open>Task\<close>, \<^verbatim>\<open>ColumnDefinition\<close>, \<^verbatim>\<open>Column\<close> and \<^verbatim>\<open>BoardData\<close> of
  \<^verbatim>\<open>index.ts\<close>. A field that several interfaces share carries a prefix (\<open>t_\<close>,
  \<open>d_\<close>, \<open>c_\<close>), and so does \<^verbatim>\<open>id\<close>, which is a constant of HOL. An optional field
  (\<^verbatim>\<open>priority?: string\<close>) is an \<open>option\<close>, \<open>None\<close> standing for \<^verbatim>\<open>undefined\<close>.
  An object used as a dictionary (\<^verbatim>\<open>Record<string, Task>\<close>) is a map over its own keys.
\<close>

record Task =
  t_id :: string
  t_title :: string
  status :: string
  priority :: "string option"
  assignedTo :: "string option"
  dueDate :: "string option"
  description :: "string option"
  recordId :: "string option"
  authorFirstName :: "string option"
  authorLastName :: "string option"
  authorEmail :: "string option"
  authorAvatar :: "string option"
  isOptimistic :: "bool option"

record ColumnDefinition =
  d_id :: string
  d_title :: string
  d_statusValues :: "string list"
  d_color :: "string option"

record Column =
  c_id :: string
  c_title :: string
  taskIds :: "string list"
  c_statusValues :: "string list"
  c_color :: "string option"

record BoardData =
  tasks :: "string \<rightharpoonup> Task"
  columns :: "string \<rightharpoonup> Column"
  columnOrder :: "string list"

text \<open>
  The fields of the class \<^verbatim>\<open>KanbanBoard\<close> that the board logic reads or writes. The
  callback \<^verbatim>\<open>_notifyOutputChanged\<close> belongs to the host; \<open>notifications\<close> counts
  how often the control has called it.
\<close>

record KanbanBoard =
  boardData :: BoardData
  draggedTaskId :: "string option"
  sourceColumnId :: "string option"
  lastUpdatedTask :: "string option"
  pendingUpdate :: bool
  columnDefinitions :: "ColumnDefinition list"
  notifications :: nat

text \<open>
  What the host supplies through \<^verbatim>\<open>context.parameters\<close>: the dataset
  \<^verbatim>\<open>taskDataSet\<close> and the raw text of \<^verbatim>\<open>tasksData\<close>. A record of the dataset
  is the partial function of its \<^verbatim>\<open>getFormattedValue\<close>: \<open>None\<close> where the call throws.
\<close>

record DataSet =
  loading :: bool
  sortedRecordIds :: "string list option"
  records :: "string \<rightharpoonup> (string \<rightharpoonup> string)"

record Context =
  taskDataSet :: "DataSet option"
  tasksData :: "string option"

text \<open>
  The value \<^verbatim>\<open>JSON.parse\<close> returns, as far as \<^verbatim>\<open>loadFromLegacyData\<close> looks at it:
  \<^verbatim>\<open>null\<close>, a number, string or boolean, an array of tasks, or an object that may have
  the keys \<^verbatim>\<open>tasks\<close>, \<^verbatim>\<open>columns\<close> and \<^verbatim>\<open>columnOrder\<close>. The parser itself is a
  parameter \<open>parse\<close> of the functions that call it; \<open>None\<close> is its \<^verbatim>\<open>SyntaxError\<close>.
\<close>

datatype ParsedData =
  PNull
  | PScalar
  | PArray "Task list"
  | PObject "(string \<rightharpoonup> Task) option" "(string \<rightharpoonup> Column) option" "string list option"

datatype error = TypeError

text \<open>The object \<^verbatim>\<open>getOutputs\<close> serialises for the host, before \<^verbatim>\<open>JSON.stringify\<close>.\<close>

record ChangeEvent =
  taskId :: string
  newStatus :: string
  previousStatus :: "string option"
  title :: string
  timestamp :: string

record IOutputs =
  updatedTasksData :: BoardData
  lastMovedTask :: "ChangeEvent option"

section \<open>JavaScript operators on strings\<close>

text \<open>\<^verbatim>\<open>toLowerCase\<close> on the ASCII letters; every other character is left as it is.\<close>

definition lowerChar :: "char \<Rightarrow> char" where
  "lowerChar c =
     (let n = (of_char c :: nat) in if 65 \<le> n \<and> n \<le> 90 then char_of (n + 32) else c)"

definition toLowerCase :: "string \<Rightarrow> string" where
  "toLowerCase s = map lowerChar s"

text \<open>\<^verbatim>\<open>a || b\<close> on strings: the empty string is falsy.\<close>

definition orElse :: "string \<Rightarrow> string \<Rightarrow> string" where
  "orElse a b = (if a = [] then b else a)"

text \<open>Truthiness of a value that is a string, \<^verbatim>\<open>null\<close> or \<^verbatim>\<open>undefined\<close>.\<close>

definition truthy :: "string option \<Rightarrow> bool" where
  "truthy x = (case x of None \<Rightarrow> False | Some v \<Rightarrow> v \<noteq> [])"

section \<open>Column definitions and classification\<close>

definition getDefaultColumnDefinitions :: "ColumnDefinition list" where
  "getDefaultColumnDefinitions =
     [\<lparr>d_id = ''todo'', d_title = ''To Do'',
        d_statusValues = [''Todo'', ''New'', ''Open''], d_color = None\<rparr>,
      \<lparr>d_id = ''inprogress'', d_title = ''In Progress'',
        d_statusValues = [''In Progress'', ''Active'', ''Working''], d_color = None\<rparr>,
      \<lparr>d_id = ''review'', d_title = ''Review'',
        d_statusValues = [''Review'', ''Testing'', ''Validation''], d_color = None\<rparr>,
      \<lparr>d_id = ''done'', d_title = ''Done'',
        d_statusValues = [''Done'', ''Completed'', ''Closed''], d_color = None\<rparr>]"

text \<open>
  \<^verbatim>\<open>column.statusValues.some(val => val.toLowerCase() === status.toLowerCase())\<close>
\<close>

definition statusMatches :: "string \<Rightarrow> ColumnDefinition \<Rightarrow> bool" where
  "statusMatches st d = list_ex (\<lambda>val. toLowerCase val = toLowerCase st) (d_statusValues d)"

text \<open>The \<^verbatim>\<open>for\<close> loop of \<^verbatim>\<open>getColumnIdByStatus\<close>; \<open>None\<close> when it falls through.\<close>

fun firstMatching :: "string \<Rightarrow> ColumnDefinition list \<Rightarrow> string option" where
  "firstMatching st [] = None"
| "firstMatching st (d # ds) = (if statusMatches st d then Some (d_id d) else firstMatching st ds)"

text \<open>
  After the loop: \<^verbatim>\<open>this._columnDefinitions[0]?.id || null\<close>. The result \<open>None\<close> is
  \<^verbatim>\<open>null\<close>.
\<close>

definition getColumnIdByStatus :: "ColumnDefinition list \<Rightarrow> string \<Rightarrow> string option" where
  "getColumnIdByStatus defs st =
     (case firstMatching st defs of
        Some c \<Rightarrow> Some c
      | None \<Rightarrow>
          (case defs of
             [] \<Rightarrow> None
           | d # _ \<Rightarrow> if d_id d = [] then None else Some (d_id d)))"

section \<open>Building boards\<close>

definition columnOf :: "ColumnDefinition \<Rightarrow> Column" where
  "columnOf d =
     \<lparr>c_id = d_id d, c_title = d_title d, taskIds = [],
      c_statusValues = d_statusValues d, c_color = d_color d\<rparr>"

fun emptyColumns :: "ColumnDefinition list \<Rightarrow> (string \<rightharpoonup> Column) \<Rightarrow> (string \<rightharpoonup> Column)" where
  "emptyColumns [] cols = cols"
| "emptyColumns (d # ds) cols = emptyColumns ds (cols(d_id d \<mapsto> columnOf d))"

definition getEmptyBoardData :: "ColumnDefinition list \<Rightarrow> BoardData" where
  "getEmptyBoardData defs =
     \<lparr>tasks = Map.empty, columns = emptyColumns defs Map.empty, columnOrder = map d_id defs\<rparr>"

text \<open>
  \<^verbatim>\<open>columns[c].taskIds = ids\<close> throws a \<^verbatim>\<open>TypeError\<close> when the board has no column \<open>c\<close>.
\<close>

definition setTaskIds ::
  "string \<Rightarrow> string list \<Rightarrow> (string \<rightharpoonup> Column) \<Rightarrow> error + (string \<rightharpoonup> Column)" where
  "setTaskIds c ids cols =
     (case cols c of None \<Rightarrow> Inl TypeError | Some col \<Rightarrow> Inr (cols(c \<mapsto> col\<lparr>taskIds := ids\<rparr>)))"

definition assignSamples :: "(string \<rightharpoonup> Column) \<Rightarrow> error + (string \<rightharpoonup> Column)" where
  "assignSamples cols =
     (case setTaskIds ''todo'' [''task-1'', ''task-5''] cols of
        Inl e \<Rightarrow> Inl e
      | Inr c1 \<Rightarrow>
     (case setTaskIds ''inprogress'' [''task-2'', ''task-6''] c1 of
        Inl e \<Rightarrow> Inl e
      | Inr c2 \<Rightarrow>
     (case setTaskIds ''review'' [''task-3''] c2 of
        Inl e \<Rightarrow> Inl e
      | Inr c3 \<Rightarrow> setTaskIds ''done'' [''task-4''] c3)))"

text \<open>
  The sample tasks of \<^verbatim>\<open>getEmptyBoardDataWithSamples\<close>; \<^verbatim>\<open>KanbanBoard/index.ts\<close> has
  them without descriptions.
\<close>

definition sampleTasks :: "string \<rightharpoonup> Task" where
  "sampleTasks = [
    ''task-1'' \<mapsto> \<lparr>t_id = ''task-1'',
      t_title = ''Implement new API endpoints'',
      status = ''Todo'',
      priority = Some ''high'',
      assignedTo = Some ''john.smith@company.com'',
      dueDate = Some ''Today'',
      description = Some ''Design and implement RESTful API endpoints for the new user management module. Ensure proper authentication, validation, and error handling are in place. Documentation must be updated with Swagger examples and response schemas.'',
      recordId = None,
      authorFirstName = Some ''John'',
      authorLastName = Some ''Smith'',
      authorEmail = Some ''john.smith@company.com'',
      authorAvatar = Some ''https://images.unsplash.com/photo-1472099645785-5658abf4ff4e?w=100&h=100&fit=crop&crop=face'',
      isOptimistic = None\<rparr>,
    ''task-2'' \<mapsto> \<lparr>t_id = ''task-2'',
      t_title = ''Fix user interface bug'',
      status = ''In Progress'',
      priority = Some ''medium'',
      assignedTo = Some ''mary.johnson@company.com'',
      dueDate = Some ''Tomorrow'',
      description = Some ''Investigate the alignment issue on the dashboard where the navigation bar overlaps with the content area on mobile devices. Fix the CSS media queries and verify across different screen sizes to ensure a responsive layout.'',
      recordId = None,
      authorFirstName = Some ''Mary'',
      authorLastName = Some ''Johnson'',
      authorEmail = Some ''mary.johnson@company.com'',
      authorAvatar = None,
      isOptimistic = None\<rparr>,
    ''task-3'' \<mapsto> \<lparr>t_id = ''task-3'',
      t_title = ''Update documentation'',
      status = ''Review'',
      priority = Some ''low'',
      assignedTo = Some ''sarah.wilson@company.com'',
      dueDate = Some ''Next week'',
      description = Some ''Review and update the project README and internal developer guides. Include instructions for setting up the local environment and running the new test suite. Ensure all deprecated API references are removed.'',
      recordId = None,
      authorFirstName = Some ''Sarah'',
      authorLastName = Some ''Wilson'',
      authorEmail = Some ''sarah.wilson@company.com'',
      authorAvatar = Some ''https://images.unsplash.com/photo-1494790108755-2616b612c3c5?w=100&h=100&fit=crop&crop=face'',
      isOptimistic = None\<rparr>,
    ''task-4'' \<mapsto> \<lparr>t_id = ''task-4'',
      t_title = ''Test new features'',
      status = ''Done'',
      priority = Some ''high'',
      assignedTo = Some ''mike.davis@company.com'',
      dueDate = Some ''Yesterday'',
      description = Some ''Execute the regression test suite for the payment gateway integration. Log any defects found in the issue tracker and verify fixes for previously reported critical bugs. Generate a final test report for the release.'',
      recordId = None,
      authorFirstName = Some ''Mike'',
      authorLastName = Some ''Davis'',
      authorEmail = Some ''mike.davis@company.com'',
      authorAvatar = None,
      isOptimistic = None\<rparr>,
    ''task-5'' \<mapsto> \<lparr>t_id = ''task-5'',
      t_title = ''Prepare client presentation'',
      status = ''Todo'',
      priority = Some ''medium'',
      assignedTo = Some ''anna.brown@company.com'',
      dueDate = Some ''Friday'',
      description = Some ''Create a slide deck for the Q3 progress review with the client. Highlight key milestones achieved, budget utilization, and upcoming risks. Practice the demo flow to ensure a smooth presentation during the meeting.'',
      recordId = None,
      authorFirstName = Some ''Anna'',
      authorLastName = Some ''Brown'',
      authorEmail = Some ''anna.brown@company.com'',
      authorAvatar = Some ''https://images.unsplash.com/photo-1438761681033-6461ffad8d80?w=100&h=100&fit=crop&crop=face'',
      isOptimistic = None\<rparr>,
    ''task-6'' \<mapsto> \<lparr>t_id = ''task-6'',
      t_title = ''Code review and merge requests'',
      status = ''In Progress'',
      priority = Some ''low'',
      assignedTo = Some ''david.taylor@company.com'',
      dueDate = Some ''Monday'',
      description = None,
      recordId = None,
      authorFirstName = Some ''David'',
      authorLastName = Some ''Taylor'',
      authorEmail = Some ''david.taylor@company.com'',
      authorAvatar = None,
      isOptimistic = None\<rparr>]"

definition sampleTasks_KB :: "string \<rightharpoonup> Task" where
  "sampleTasks_KB = [
    ''task-1'' \<mapsto> \<lparr>t_id = ''task-1'',
      t_title = ''Implement new API endpoints'',
      status = ''Todo'',
      priority = Some ''high'',
      assignedTo = Some ''john.smith@company.com'',
      dueDate = Some ''Today'',
      description = None,
      recordId = None,
      authorFirstName = Some ''John'',
      authorLastName = Some ''Smith'',
      authorEmail = Some ''john.smith@company.com'',
      authorAvatar = Some ''https://images.unsplash.com/photo-1472099645785-5658abf4ff4e?w=100&h=100&fit=crop&crop=face'',
      isOptimistic = None\<rparr>,
    ''task-2'' \<mapsto> \<lparr>t_id = ''task-2'',
      t_title = ''Fix user interface bug'',
      status = ''In Progress'',
      priority = Some ''medium'',
      assignedTo = Some ''mary.johnson@company.com'',
      dueDate = Some ''Tomorrow'',
      description = None,
      recordId = None,
      authorFirstName = Some ''Mary'',
      authorLastName = Some ''Johnson'',
      authorEmail = Some ''mary.johnson@company.com'',
      authorAvatar = None,
      isOptimistic = None\<rparr>,
    ''task-3'' \<mapsto> \<lparr>t_id = ''task-3'',
      t_title = ''Update documentation'',
      status = ''Review'',
      priority = Some ''low'',
      assignedTo = Some ''sarah.wilson@company.com'',
      dueDate = Some ''Next week'',
      description = None,
      recordId = None,
      authorFirstName = Some ''Sarah'',
      authorLastName = Some ''Wilson'',
      authorEmail = Some ''sarah.wilson@company.com'',
      authorAvatar = Some ''https://images.unsplash.com/photo-1494790108755-2616b612c3c5?w=100&h=100&fit=crop&crop=face'',
      isOptimistic = None\<rparr>,
    ''task-4'' \<mapsto> \<lparr>t_id = ''task-4'',
      t_title = ''Test new features'',
      status = ''Done'',
      priority = Some ''high'',
      assignedTo = Some ''mike.davis@company.com'',
      dueDate = Some ''Yesterday'',
      description = None,
      recordId = None,
      authorFirstName = Some ''Mike'',
      authorLastName = Some ''Davis'',
      authorEmail = Some ''mike.davis@company.com'',
      authorAvatar = None,
      isOptimistic = None\<rparr>,
    ''task-5'' \<mapsto> \<lparr>t_id = ''task-5'',
      t_title = ''Prepare client presentation'',
      status = ''Todo'',
      priority = Some ''medium'',
      assignedTo = Some ''anna.brown@company.com'',
      dueDate = Some ''Friday'',
      description = None,
      recordId = None,
      authorFirstName = Some ''Anna'',
      authorLastName = Some ''Brown'',
      authorEmail = Some ''anna.brown@company.com'',
      authorAvatar = Some ''https://images.unsplash.com/photo-1438761681033-6461ffad8d80?w=100&h=100&fit=crop&crop=face'',
      isOptimistic = None\<rparr>,
    ''task-6'' \<mapsto> \<lparr>t_id = ''task-6'',
      t_title = ''Code review and merge requests'',
      status = ''In Progress'',
      priority = Some ''low'',
      assignedTo = Some ''david.taylor@company.com'',
      dueDate = Some ''Monday'',
      description = None,
      recordId = None,
      authorFirstName = Some ''David'',
      authorLastName = Some ''Taylor'',
      authorEmail = Some ''david.taylor@company.com'',
      authorAvatar = None,
      isOptimistic = None\<rparr>]"

definition getEmptyBoardDataWithSamples :: "ColumnDefinition list \<Rightarrow> error + BoardData" where
  "getEmptyBoardDataWithSamples defs =
     (case assignSamples (emptyColumns defs Map.empty) of
        Inl e \<Rightarrow> Inl e
      | Inr cols \<Rightarrow> Inr \<lparr>tasks = sampleTasks, columns = cols, columnOrder = map d_id defs\<rparr>)"

definition getEmptyBoardDataWithSamples_KB :: "ColumnDefinition list \<Rightarrow> error + BoardData" where
  "getEmptyBoardDataWithSamples_KB defs =
     (case assignSamples (emptyColumns defs Map.empty) of
        Inl e \<Rightarrow> Inl e
      | Inr cols \<Rightarrow> Inr \<lparr>tasks = sampleTasks_KB, columns = cols, columnOrder = map d_id defs\<rparr>)"

section \<open>Loading from the dataset\<close>

text \<open>The helper \<^verbatim>\<open>getValue\<close>: the formatted value, or \<^verbatim>\<open>""\<close> when reading it throws.\<close>

definition getValue :: "DataSet \<Rightarrow> string \<Rightarrow> string \<Rightarrow> string" where
  "getValue ds rid alias =
     (case records ds rid of
        None \<Rightarrow> []
      | Some r \<Rightarrow> (case r alias of None \<Rightarrow> [] | Some v \<Rightarrow> v))"

definition isHarnessMock :: "DataSet \<Rightarrow> string \<Rightarrow> bool" where
  "isHarnessMock ds rid = (getValue ds rid ''title'' = ''val'' \<and> getValue ds rid ''status'' = ''val'')"

definition buildTask :: "DataSet \<Rightarrow> string \<Rightarrow> Task" where
  "buildTask ds rid =
     \<lparr>t_id = orElse (getValue ds rid ''id'') rid,
      t_title = orElse (getValue ds rid ''title'') ''Untitled'',
      status = orElse (getValue ds rid ''status'') ''Unknown'',
      priority = Some (getValue ds rid ''priority''),
      assignedTo = Some (getValue ds rid ''assignedto''),
      dueDate = Some (getValue ds rid ''duedate''),
      description = Some (getValue ds rid ''description''),
      recordId = Some rid,
      authorFirstName = Some (getValue ds rid ''authorFirstNameField''),
      authorLastName = None,
      authorEmail = None,
      authorAvatar = None,
      isOptimistic = None\<rparr>"

text \<open>
  The block under \<^verbatim>\<open>OPTIMISTIC CHECK\<close>: \<open>prev\<close> is \<^verbatim>\<open>this._boardData.tasks\<close>, the
  tasks held before the load, \<open>incomingStatus\<close> the status read from the record.
\<close>

definition reconcile :: "(string \<rightharpoonup> Task) \<Rightarrow> string \<Rightarrow> Task \<Rightarrow> Task" where
  "reconcile prev incomingStatus task =
     (case prev (t_id task) of
        None \<Rightarrow> task
      | Some held \<Rightarrow>
          if isOptimistic held = Some True then
            (if status held \<noteq> incomingStatus
             then task\<lparr>status := status held, isOptimistic := Some True\<rparr>
             else task\<lparr>isOptimistic := Some False\<rparr>)
          else task)"

text \<open>\<^verbatim>\<open>columns[c].taskIds.push(tid)\<close> on a column that exists.\<close>

definition pushTaskId :: "string \<Rightarrow> Column \<Rightarrow> string \<Rightarrow> (string \<rightharpoonup> Column) \<Rightarrow> (string \<rightharpoonup> Column)" where
  "pushTaskId c col tid cols = cols(c \<mapsto> col\<lparr>taskIds := taskIds col @ [tid]\<rparr>)"

text \<open>
  The assignment of a loaded task to a column. When the classified column is missing, the
  task goes to \<^verbatim>\<open>columnOrder[0]\<close>; the push on a first column that the board does not
  have throws, and \<open>Inl\<close> gives the columns as they are at that moment.
\<close>

definition assignToColumn ::
  "ColumnDefinition list \<Rightarrow> string list \<Rightarrow> Task \<Rightarrow> (string \<rightharpoonup> Column) \<Rightarrow>
   error \<times> (string \<rightharpoonup> Column) + (string \<rightharpoonup> Column)" where
  "assignToColumn defs order task cols =
     (let fallback =
        (case order of
           [] \<Rightarrow> Inr cols
         | firstColId # _ \<Rightarrow>
             if firstColId = [] then Inr cols
             else (case cols firstColId of
                     None \<Rightarrow> Inl (TypeError, cols)
                   | Some col \<Rightarrow> Inr (pushTaskId firstColId col (t_id task) cols)))
      in case getColumnIdByStatus defs (status task) of
           None \<Rightarrow> fallback
         | Some columnId \<Rightarrow>
             if columnId = [] then fallback
             else (case cols columnId of
                     None \<Rightarrow> fallback
                   | Some col \<Rightarrow> Inr (pushTaskId columnId col (t_id task) cols)))"

text \<open>The task that the loop body stores for a record: built, then reconciled.\<close>

definition loadedTask :: "(string \<rightharpoonup> Task) \<Rightarrow> DataSet \<Rightarrow> string \<Rightarrow> Task" where
  "loadedTask prev ds rid =
     reconcile prev (orElse (getValue ds rid ''status'') ''Unknown'') (buildTask ds rid)"

text \<open>
  The body of \<^verbatim>\<open>sortedRecordIds.forEach\<close>. The state of the loop is the local map
  \<^verbatim>\<open>tasks\<close> and the columns of the board.
\<close>

definition datasetRecord ::
  "ColumnDefinition list \<Rightarrow> (string \<rightharpoonup> Task) \<Rightarrow> string list \<Rightarrow> DataSet \<Rightarrow> string \<Rightarrow>
   (string \<rightharpoonup> Task) \<times> (string \<rightharpoonup> Column) \<Rightarrow>
   error \<times> (string \<rightharpoonup> Column) + (string \<rightharpoonup> Task) \<times> (string \<rightharpoonup> Column)" where
  "datasetRecord defs prev order ds rid acc =
     (if isHarnessMock ds rid then Inr acc
      else
        let task = loadedTask prev ds rid;
            tasks' = (fst acc)(t_id task \<mapsto> task)
        in case assignToColumn defs order task (snd acc) of
             Inl e \<Rightarrow> Inl e
           | Inr cols' \<Rightarrow> Inr (tasks', cols'))"

fun datasetLoop ::
  "ColumnDefinition list \<Rightarrow> (string \<rightharpoonup> Task) \<Rightarrow> string list \<Rightarrow> DataSet \<Rightarrow> string list \<Rightarrow>
   (string \<rightharpoonup> Task) \<times> (string \<rightharpoonup> Column) \<Rightarrow>
   error \<times> (string \<rightharpoonup> Column) + (string \<rightharpoonup> Task) \<times> (string \<rightharpoonup> Column)" where
  "datasetLoop defs prev order ds [] acc = Inr acc"
| "datasetLoop defs prev order ds (rid # rids) acc =
     (case datasetRecord defs prev order ds rid acc of
        Inl e \<Rightarrow> Inl e
      | Inr acc' \<Rightarrow> datasetLoop defs prev order ds rids acc')"

definition clearTaskIds :: "(string \<rightharpoonup> Column) \<Rightarrow> (string \<rightharpoonup> Column)" where
  "clearTaskIds cols = (\<lambda>c. map_option (\<lambda>col. col\<lparr>taskIds := []\<rparr>) (cols c))"

text \<open>
  \<^verbatim>\<open>loadFromDataset\<close>. \<open>Inl (e, s')\<close>: the exception \<open>e\<close> leaves the method, and the
  control is left in \<open>s'\<close> (columns already written, \<^verbatim>\<open>tasks\<close> not yet replaced).
\<close>

definition loadFromDataset :: "Context \<Rightarrow> KanbanBoard \<Rightarrow> error \<times> KanbanBoard + KanbanBoard" where
  "loadFromDataset ctx s =
     (let b = boardData s;
          cleared = clearTaskIds (columns b);
          s1 = s\<lparr>boardData := b\<lparr>columns := cleared\<rparr>\<rparr>
      in case taskDataSet ctx of
           None \<Rightarrow> Inr s1
         | Some ds \<Rightarrow>
             (case sortedRecordIds ds of
                None \<Rightarrow> Inr s1
              | Some ids \<Rightarrow>
                  (case datasetLoop (columnDefinitions s) (tasks b) (columnOrder b) ds ids
                          (Map.empty, cleared) of
                     Inl (e, cols) \<Rightarrow> Inl (e, s\<lparr>boardData := b\<lparr>columns := cols\<rparr>\<rparr>)
                   | Inr (tasks', cols) \<Rightarrow>
                       Inr (s\<lparr>boardData := b\<lparr>tasks := tasks', columns := cols\<rparr>\<rparr>))))"

section \<open>Loading from the JSON property\<close>

text \<open>
  \<^verbatim>\<open>{ ...emptyBoard, ...parsedData }\<close>: a key of the parsed object replaces the key of the
  empty board. Spreading \<^verbatim>\<open>null\<close>, a scalar or an array adds no key of \<^verbatim>\<open>BoardData\<close>.
\<close>

fun spreadOver :: "BoardData \<Rightarrow> ParsedData \<Rightarrow> BoardData" where
  "spreadOver e (PObject t c ord) =
     \<lparr>tasks = (case t of None \<Rightarrow> tasks e | Some t' \<Rightarrow> t'),
      columns = (case c of None \<Rightarrow> columns e | Some c' \<Rightarrow> c'),
      columnOrder = (case ord of None \<Rightarrow> columnOrder e | Some ord' \<Rightarrow> ord')\<rparr>"
| "spreadOver e _ = e"

text \<open>The body of \<^verbatim>\<open>parsedData.forEach\<close> on a flat array of tasks.\<close>

definition legacyTask ::
  "ColumnDefinition list \<Rightarrow> Task \<Rightarrow> BoardData \<Rightarrow> error \<times> BoardData + BoardData" where
  "legacyTask defs task b =
     (let b1 = b\<lparr>tasks := (tasks b)(t_id task \<mapsto> task)\<rparr>
      in case getColumnIdByStatus defs (status task) of
           None \<Rightarrow> Inr b1
         | Some colId \<Rightarrow>
             if colId = [] then Inr b1
             else (case columns b1 colId of
                     None \<Rightarrow> Inl (TypeError, b1)
                   | Some col \<Rightarrow>
                       Inr (b1\<lparr>columns := pushTaskId colId col (t_id task) (columns b1)\<rparr>)))"

fun legacyLoop ::
  "ColumnDefinition list \<Rightarrow> Task list \<Rightarrow> BoardData \<Rightarrow> error \<times> BoardData + BoardData" where
  "legacyLoop defs [] b = Inr b"
| "legacyLoop defs (t # ts) b =
     (case legacyTask defs t b of Inl e \<Rightarrow> Inl e | Inr b' \<Rightarrow> legacyLoop defs ts b')"

text \<open>
  \<^verbatim>\<open>loadFromLegacyData\<close> of the control with dataset support. Everything runs inside
  \<^verbatim>\<open>try\<close>; the \<^verbatim>\<open>catch\<close> block only logs. An exception raised after
  \<^verbatim>\<open>this._boardData = emptyBoard\<close> leaves the board as the loop has filled it so far.
\<close>

definition loadFromLegacyData ::
  "(string \<Rightarrow> ParsedData option) \<Rightarrow> string \<Rightarrow> KanbanBoard \<Rightarrow> KanbanBoard" where
  "loadFromLegacyData parse raw s =
     (case parse raw of
        None \<Rightarrow> s
      | Some parsedData \<Rightarrow>
          let emptyBoard = getEmptyBoardData (columnDefinitions s)
          in (case parsedData of
                PNull \<Rightarrow> s
              | PObject t c ord \<Rightarrow>
                  if c \<noteq> None \<and> t \<noteq> None
                  then s\<lparr>boardData := spreadOver emptyBoard parsedData\<rparr>
                  else s\<lparr>boardData := spreadOver emptyBoard parsedData\<rparr>
              | PArray ts \<Rightarrow>
                  (case legacyLoop (columnDefinitions s) ts emptyBoard of
                     Inl (e, b) \<Rightarrow> s\<lparr>boardData := b\<rparr>
                   | Inr b \<Rightarrow> s\<lparr>boardData := b\<rparr>)
              | PScalar \<Rightarrow> s\<lparr>boardData := spreadOver emptyBoard parsedData\<rparr>))"

text \<open>
  \<^verbatim>\<open>loadFromLegacyData\<close> of \<^verbatim>\<open>KanbanBoard/index.ts\<close>: the parsed value is spread over the
  empty board whatever its shape, and the \<^verbatim>\<open>catch\<close> block loads the sample board.
\<close>

definition loadFromLegacyData_KB ::
  "(string \<Rightarrow> ParsedData option) \<Rightarrow> string \<Rightarrow> KanbanBoard \<Rightarrow> error \<times> KanbanBoard + KanbanBoard" where
  "loadFromLegacyData_KB parse raw s =
     (case parse raw of
        None \<Rightarrow>
          (case getEmptyBoardDataWithSamples_KB (columnDefinitions s) of
             Inl e \<Rightarrow> Inl (e, s)
           | Inr b \<Rightarrow> Inr (s\<lparr>boardData := b\<rparr>))
      | Some parsedData \<Rightarrow>
          Inr (s\<lparr>boardData := spreadOver (getEmptyBoardData (columnDefinitions s)) parsedData\<rparr>))"

section \<open>Choosing the source\<close>

definition datasetReady :: "DataSet option \<Rightarrow> bool" where
  "datasetReady d =
     (case d of
        None \<Rightarrow> False
      | Some ds \<Rightarrow>
          \<not> loading ds \<and> (case sortedRecordIds ds of None \<Rightarrow> False | Some ids \<Rightarrow> length ids > 0))"

definition loadSamples :: "KanbanBoard \<Rightarrow> error \<times> KanbanBoard + KanbanBoard" where
  "loadSamples s =
     (case getEmptyBoardDataWithSamples (columnDefinitions s) of
        Inl e \<Rightarrow> Inl (e, s)
      | Inr b \<Rightarrow> Inr (s\<lparr>boardData := b\<rparr>))"

definition loadData ::
  "(string \<Rightarrow> ParsedData option) \<Rightarrow> Context \<Rightarrow> KanbanBoard \<Rightarrow> error \<times> KanbanBoard + KanbanBoard" where
  "loadData parse ctx s =
     (if datasetReady (taskDataSet ctx) then
        (case loadFromDataset ctx s of
           Inl e \<Rightarrow> Inl e
         | Inr s1 \<Rightarrow> if dom (tasks (boardData s1)) = {} then loadSamples s1 else Inr s1)
      else if truthy (tasksData ctx) then
        (case tasksData ctx of
           None \<Rightarrow> Inr s
         | Some raw \<Rightarrow> Inr (loadFromLegacyData parse raw s))
      else loadSamples s)"

definition loadData_KB ::
  "(string \<Rightarrow> ParsedData option) \<Rightarrow> Context \<Rightarrow> KanbanBoard \<Rightarrow> error \<times> KanbanBoard + KanbanBoard" where
  "loadData_KB parse ctx s =
     (case tasksData ctx of
        None \<Rightarrow> Inr (s\<lparr>boardData := getEmptyBoardData (columnDefinitions s)\<rparr>)
      | Some raw \<Rightarrow>
          if raw = [] then Inr (s\<lparr>boardData := getEmptyBoardData (columnDefinitions s)\<rparr>)
          else loadFromLegacyData_KB parse raw s)"

text \<open>The constructor, and \<^verbatim>\<open>updateView\<close> as far as it touches the board.\<close>

definition newKanbanBoard :: KanbanBoard where
  "newKanbanBoard =
     \<lparr>boardData = getEmptyBoardData [], draggedTaskId = None, sourceColumnId = None,
      lastUpdatedTask = None, pendingUpdate = False, columnDefinitions = [],
      notifications = 0\<rparr>"

definition updateColumnDefinitions :: "KanbanBoard \<Rightarrow> KanbanBoard" where
  "updateColumnDefinitions s = s\<lparr>columnDefinitions := getDefaultColumnDefinitions\<rparr>"

definition updateView ::
  "(string \<Rightarrow> ParsedData option) \<Rightarrow> Context \<Rightarrow> KanbanBoard \<Rightarrow> error \<times> KanbanBoard + KanbanBoard" where
  "updateView parse ctx s = loadData parse ctx (updateColumnDefinitions s)"

definition updateView_KB ::
  "(string \<Rightarrow> ParsedData option) \<Rightarrow> Context \<Rightarrow> KanbanBoard \<Rightarrow> error \<times> KanbanBoard + KanbanBoard" where
  "updateView_KB parse ctx s =
     (if truthy (tasksData ctx) then loadData_KB parse ctx (updateColumnDefinitions s)
      else Inr (updateColumnDefinitions s))"

section \<open>Moving a task\<close>

text \<open>\<^verbatim>\<open>targetColumn.statusValues[0] || targetColumn.title\<close>\<close>

definition targetStatus :: "Column \<Rightarrow> string" where
  "targetStatus col =
     (case c_statusValues col of [] \<Rightarrow> c_title col | v # _ \<Rightarrow> orElse v (c_title col))"

text \<open>
  \<^verbatim>\<open>indexOf\<close> followed by \<^verbatim>\<open>splice(taskIndex, 1)\<close> removes the first occurrence, which
  is \<open>remove1\<close>; the two columns are distinct objects, as their keys differ.
\<close>

definition moveColumns ::
  "string \<Rightarrow> string \<Rightarrow> Column \<Rightarrow> string \<Rightarrow> Column \<Rightarrow> (string \<rightharpoonup> Column) \<Rightarrow> (string \<rightharpoonup> Column)" where
  "moveColumns tid src sourceColumn tgt targetColumn cols =
     (cols(src \<mapsto> sourceColumn\<lparr>taskIds := remove1 tid (taskIds sourceColumn)\<rparr>))
       (tgt \<mapsto> targetColumn\<lparr>taskIds := taskIds targetColumn @ [tid]\<rparr>)"

definition moveTask :: "string \<Rightarrow> string \<Rightarrow> string \<Rightarrow> KanbanBoard \<Rightarrow> KanbanBoard" where
  "moveTask tid src tgt s =
     (if src = tgt then s
      else
        let b = boardData s in
        (case columns b src of
           None \<Rightarrow> s
         | Some sourceColumn \<Rightarrow>
        (case columns b tgt of
           None \<Rightarrow> s
         | Some targetColumn \<Rightarrow>
        (case tasks b tid of
           None \<Rightarrow> s
         | Some task \<Rightarrow>
             s\<lparr>boardData :=
                 b\<lparr>tasks := (tasks b)(tid \<mapsto>
                      task\<lparr>status := targetStatus targetColumn, isOptimistic := Some True\<rparr>),
                   columns := moveColumns tid src sourceColumn tgt targetColumn (columns b)\<rparr>,
               lastUpdatedTask := Some tid,
               pendingUpdate := True,
               notifications := Suc (notifications s)\<rparr>))))"

text \<open>\<^verbatim>\<open>moveTask\<close> of \<^verbatim>\<open>KanbanBoard/index.ts\<close>, whose tasks have no \<^verbatim>\<open>isOptimistic\<close>.\<close>

definition moveTask_KB :: "string \<Rightarrow> string \<Rightarrow> string \<Rightarrow> KanbanBoard \<Rightarrow> KanbanBoard" where
  "moveTask_KB tid src tgt s =
     (if src = tgt then s
      else
        let b = boardData s in
        (case columns b src of
           None \<Rightarrow> s
         | Some sourceColumn \<Rightarrow>
        (case columns b tgt of
           None \<Rightarrow> s
         | Some targetColumn \<Rightarrow>
        (case tasks b tid of
           None \<Rightarrow> s
         | Some task \<Rightarrow>
             s\<lparr>boardData :=
                 b\<lparr>tasks := (tasks b)(tid \<mapsto> task\<lparr>status := targetStatus targetColumn\<rparr>),
                   columns := moveColumns tid src sourceColumn tgt targetColumn (columns b)\<rparr>,
               lastUpdatedTask := Some tid,
               pendingUpdate := True,
               notifications := Suc (notifications s)\<rparr>))))"

section \<open>The drag session\<close>


definition onDragEnd :: "KanbanBoard \<Rightarrow> KanbanBoard" where
  "onDragEnd s = s\<lparr>draggedTaskId := None, sourceColumnId := None\<rparr>"

definition onDrop :: "string option \<Rightarrow> KanbanBoard \<Rightarrow> KanbanBoard" where
  "onDrop targetAttr s =
     (case draggedTaskId s of
        None \<Rightarrow> s
      | Some tid \<Rightarrow>
     (case sourceColumnId s of
        None \<Rightarrow> s
      | Some sourceCol \<Rightarrow>
          if tid = [] \<or> sourceCol = [] then s
          else
            (case targetAttr of
               None \<Rightarrow> s
             | Some targetColumnId \<Rightarrow>
                 if targetColumnId = [] then s
                 else if sourceCol = targetColumnId then s
                 else moveTask tid sourceCol targetColumnId s)))"

definition onDrop_KB :: "string option \<Rightarrow> KanbanBoard \<Rightarrow> KanbanBoard" where
  "onDrop_KB targetAttr s =
     (case draggedTaskId s of
        None \<Rightarrow> s
      | Some tid \<Rightarrow>
     (case sourceColumnId s of
        None \<Rightarrow> s
      | Some sourceCol \<Rightarrow>
          if tid = [] \<or> sourceCol = [] then s
          else
            (case targetAttr of
               None \<Rightarrow> s
             | Some targetColumnId \<Rightarrow>
                 if targetColumnId = [] then s
                 else moveTask_KB tid sourceCol targetColumnId s)))"

section \<open>Outputs\<close>

text \<open>
  \<^verbatim>\<open>getOutputs\<close>; \<open>now\<close> is \<^verbatim>\<open>new Date().toISOString()\<close>. Reading the title of a
  column that the board does not have throws.
\<close>

definition taskIdentity :: "Task \<Rightarrow> string" where
  "taskIdentity t = (case recordId t of None \<Rightarrow> t_id t | Some r \<Rightarrow> orElse r (t_id t))"

definition lookupLastMoved :: "KanbanBoard \<Rightarrow> Task option" where
  "lookupLastMoved s =
     (case lastUpdatedTask s of
        None \<Rightarrow> None
      | Some tid \<Rightarrow> if tid = [] then None else tasks (boardData s) tid)"

definition getOutputs :: "string \<Rightarrow> KanbanBoard \<Rightarrow> error + IOutputs" where
  "getOutputs now s =
     (case lookupLastMoved s of
        None \<Rightarrow> Inr \<lparr>updatedTasksData = boardData s, lastMovedTask = None\<rparr>
      | Some t \<Rightarrow>
          (case (if truthy (sourceColumnId s)
                 then (case sourceColumnId s of
                         None \<Rightarrow> Inr []
                       | Some c \<Rightarrow>
                           (case columns (boardData s) c of
                              None \<Rightarrow> Inl TypeError
                            | Some col \<Rightarrow> Inr (c_title col)))
                 else Inr []) of
             Inl e \<Rightarrow> Inl e
           | Inr prev \<Rightarrow>
               Inr \<lparr>updatedTasksData = boardData s,
                    lastMovedTask = Some \<lparr>taskId = taskIdentity t, newStatus = status t,
                      previousStatus = Some prev, title = t_title t, timestamp = now\<rparr>\<rparr>))"

definition getOutputs_KB :: "string \<Rightarrow> KanbanBoard \<Rightarrow> IOutputs" where
  "getOutputs_KB now s =
     \<lparr>updatedTasksData = boardData s,
      lastMovedTask =
        (case lookupLastMoved s of
           None \<Rightarrow> None
         | Some t \<Rightarrow>
             Some \<lparr>taskId = taskIdentity t, newStatus = status t,
                   previousStatus = None, title = t_title t, timestamp = now\<rparr>)\<rparr>"

section \<open>Runs of the control\<close>

text \<open>The state in which a call leaves the control, whether it returned or threw.\<close>

definition stateAfter :: "error \<times> KanbanBoard + KanbanBoard \<Rightarrow> KanbanBoard" where
  "stateAfter r = (case r of Inl (e, s) \<Rightarrow> s | Inr s \<Rightarrow> s)"




section \<open>Invariants of the board\<close>


text \<open>A task id is in at most one column's list, and at most once there.\<close>

definition uniqueTaskIds :: "(string \<rightharpoonup> Column) \<Rightarrow> bool" where
  "uniqueTaskIds cols =
     ((\<forall>c col. cols c = Some col \<longrightarrow> distinct (taskIds col))
      \<and> (\<forall>c1 c2 col1 col2. cols c1 = Some col1 \<longrightarrow> cols c2 = Some col2 \<longrightarrow> c1 \<noteq> c2 \<longrightarrow>
            set (taskIds col1) \<inter> set (taskIds col2) = {}))"

text \<open>The task ids of the records that a dataset load does not skip, in their order.\<close>

definition loadedIds :: "DataSet \<Rightarrow> string list \<Rightarrow> string list" where
  "loadedIds ds ids =
     map (\<lambda>rid. t_id (buildTask ds rid)) (filter (\<lambda>rid. \<not> isHarnessMock ds rid) ids)"

text \<open>The ids that occur in the lists of the columns.\<close>

definition columnIds :: "(string \<rightharpoonup> Column) \<Rightarrow> string set" where
  "columnIds cols = {tid. \<exists>c col. cols c = Some col \<and> tid \<in> set (taskIds col)}"

text \<open>
  \<^verbatim>\<open>columnOrder[0]\<close> is \<^verbatim>\<open>undefined\<close>, the empty string, or the id of a column of the
  board: the fallback of \<^verbatim>\<open>loadFromDataset\<close> then has a column to push to.
\<close>

definition firstColumnPresent :: "BoardData \<Rightarrow> bool" where
  "firstColumnPresent b =
     (case columnOrder b of [] \<Rightarrow> True | f # _ \<Rightarrow> f = [] \<or> columns b f \<noteq> None)"




section \<open>Example data\<close>

text \<open>Small boards on which the theorems below are instantiated.\<close>

definition exampleTask :: "string \<Rightarrow> string \<Rightarrow> string option \<Rightarrow> Task" where
  "exampleTask tid st rid =
     \<lparr>t_id = tid, t_title = ''Write report'', status = st, priority = None, assignedTo = None,
      dueDate = None, description = None, recordId = rid, authorFirstName = None,
      authorLastName = None, authorEmail = None, authorAvatar = None, isOptimistic = None\<rparr>"

definition exampleColumn :: "string \<Rightarrow> string \<Rightarrow> string list \<Rightarrow> string list \<Rightarrow> Column" where
  "exampleColumn cid ttl ids aliases =
     \<lparr>c_id = cid, c_title = ttl, taskIds = ids, c_statusValues = aliases, c_color = None\<rparr>"

definition exampleBoard :: BoardData where
  "exampleBoard =
     \<lparr>tasks = [''t1'' \<mapsto> exampleTask ''t1'' ''Todo'' (Some ''rec-1'')],
      columns = [''todo'' \<mapsto> exampleColumn ''todo'' ''To Do'' [''t1''] [''Todo'', ''New'', ''Open''],
                 ''done'' \<mapsto> exampleColumn ''done'' ''Done'' [] [''Done'', ''Completed'', ''Closed''],
                 ''misc'' \<mapsto> exampleColumn ''misc'' ''Misc'' [] ['''']],
      columnOrder = [''todo'', ''done'', ''misc'']\<rparr>"

definition exampleState :: KanbanBoard where
  "exampleState =
     \<lparr>boardData = exampleBoard, draggedTaskId = Some ''t1'', sourceColumnId = Some ''todo'',
      lastUpdatedTask = None, pendingUpdate = False,
      columnDefinitions = getDefaultColumnDefinitions, notifications = 0\<rparr>"

text \<open>
  The columns of the sample board: the four default columns, with the sample tasks
  assigned as \<^verbatim>\<open>getEmptyBoardDataWithSamples\<close> assigns them.
\<close>

definition isSampleColumns :: "(string \<rightharpoonup> Column) \<Rightarrow> bool" where
  "isSampleColumns cols \<longleftrightarrow>
     cols ''todo'' = Some \<lparr>c_id = ''todo'', c_title = ''To Do'', taskIds = [''task-1'', ''task-5''],
                       c_statusValues = [''Todo'', ''New'', ''Open''], c_color = None\<rparr>
   \<and> cols ''inprogress'' = Some \<lparr>c_id = ''inprogress'', c_title = ''In Progress'',
                       taskIds = [''task-2'', ''task-6''],
                       c_statusValues = [''In Progress'', ''Active'', ''Working''], c_color = None\<rparr>
   \<and> cols ''review'' = Some \<lparr>c_id = ''review'', c_title = ''Review'', taskIds = [''task-3''],
                       c_statusValues = [''Review'', ''Testing'', ''Validation''], c_color = None\<rparr>
   \<and> cols ''done'' = Some \<lparr>c_id = ''done'', c_title = ''Done'', taskIds = [''task-4''],
                       c_statusValues = [''Done'', ''Completed'', ''Closed''], c_color = None\<rparr>
   \<and> dom cols = {''todo'', ''inprogress'', ''review'', ''done''}"

text \<open>
  A legacy text whose column \<^verbatim>\<open>todo\<close> lists a task that the text does not bring, and a
  parser for the examples: it knows four texts and rejects every other one, as
  \<^verbatim>\<open>JSON.parse\<close> rejects \<^verbatim>\<open>{"tasks":\<close>.
\<close>

definition ghostBundle :: string where
  "ghostBundle =
     ''{\"columns\":{\"todo\":{\"id\":\"todo\",\"title\":\"To Do\",\"taskIds\":[\"ghost\"],\"statusValues\":[\"Todo\"]}}}''"

definition exampleParse :: "string \<Rightarrow> ParsedData option" where
  "exampleParse raw =
     (if raw = ''null'' then Some PNull
      else if raw = ''42'' then Some PScalar
      else if raw = ''[]'' then Some (PArray [])
      else if raw = ghostBundle
      then Some (PObject None
                   (Some [''todo'' \<mapsto> exampleColumn ''todo'' ''To Do'' [''ghost''] [''Todo'']]) None)
      else None)"

text \<open>A dataset whose only record is the mock record of the test harness.\<close>

definition harnessDataSet :: DataSet where
  "harnessDataSet =
     \<lparr>loading = False, sortedRecordIds = Some [''r1''],
      records = [''r1'' \<mapsto> [''title'' \<mapsto> ''val'', ''status'' \<mapsto> ''val'']]\<rparr>"

text \<open>A dataset that still lists the task \<^verbatim>\<open>t1\<close> with the status \<^verbatim>\<open>Todo\<close>.\<close>

definition staleDataSet :: DataSet where
  "staleDataSet =
     \<lparr>loading = False, sortedRecordIds = Some [''rec-1''],
      records = [''rec-1'' \<mapsto> [''id'' \<mapsto> ''t1'', ''title'' \<mapsto> ''Write report'',
                               ''status'' \<mapsto> ''Todo'']]\<rparr>"

definition staleContext :: Context where
  "staleContext = \<lparr>taskDataSet = Some staleDataSet, tasksData = None\<rparr>"

definition harnessContext :: Context where
  "harnessContext = \<lparr>taskDataSet = Some harnessDataSet, tasksData = None\<rparr>"

section \<open>Classification\<close>





lemma lower_simps:
  "toLowerCase ''DONE'' = ''done''" "toLowerCase ''Done'' = ''done''"
  "toLowerCase ''Todo'' = ''todo''" "toLowerCase ''New'' = ''new''" "toLowerCase ''Open'' = ''open''"
  "toLowerCase ''In Progress'' = ''in progress''" "toLowerCase ''Active'' = ''active''"
  "toLowerCase ''Working'' = ''working''" "toLowerCase ''Review'' = ''review''"
  "toLowerCase ''Testing'' = ''testing''" "toLowerCase ''Validation'' = ''validation''"
  "toLowerCase ''Completed'' = ''completed''" "toLowerCase ''Closed'' = ''closed''"
  by code_simp+





section \<open>Moving a task: basic facts\<close>

lemma example_lookups:
  "boardData exampleState = exampleBoard"
  "columns exampleBoard ''todo'' = Some (exampleColumn ''todo'' ''To Do'' [''t1''] [''Todo'', ''New'', ''Open''])"
  "columns exampleBoard ''done'' = Some (exampleColumn ''done'' ''Done'' [] [''Done'', ''Completed'', ''Closed''])"
  "columns exampleBoard ''misc'' = Some (exampleColumn ''misc'' ''Misc'' [] [''''])"
  "columns exampleBoard ''archive'' = None"
  "tasks exampleBoard ''t1'' = Some (exampleTask ''t1'' ''Todo'' (Some ''rec-1''))"
  "tasks exampleBoard ''t9'' = None"
  by (simp_all add: exampleState_def exampleBoard_def)

lemma moveTask_success:
  assumes "columns (boardData s) src = Some sc" "columns (boardData s) tgt = Some tc"
    "tasks (boardData s) tid = Some t" "src \<noteq> tgt"
  shows "moveTask tid src tgt s =
           s\<lparr>boardData := (boardData s)
                \<lparr>tasks := (tasks (boardData s))(tid \<mapsto>
                     t\<lparr>status := targetStatus tc, isOptimistic := Some True\<rparr>),
                 columns := moveColumns tid src sc tgt tc (columns (boardData s))\<rparr>,
              lastUpdatedTask := Some tid, pendingUpdate := True,
              notifications := Suc (notifications s)\<rparr>"
  using assms by (simp add: moveTask_def Let_def)

lemma moveTask_KB_success:
  assumes "columns (boardData s) src = Some sc" "columns (boardData s) tgt = Some tc"
    "tasks (boardData s) tid = Some t" "src \<noteq> tgt"
  shows "moveTask_KB tid src tgt s =
           s\<lparr>boardData := (boardData s)
                \<lparr>tasks := (tasks (boardData s))(tid \<mapsto> t\<lparr>status := targetStatus tc\<rparr>),
                 columns := moveColumns tid src sc tgt tc (columns (boardData s))\<rparr>,
              lastUpdatedTask := Some tid, pendingUpdate := True,
              notifications := Suc (notifications s)\<rparr>"
  using assms by (simp add: moveTask_KB_def Let_def)

lemma targetStatus_cases:
  "targetStatus tc =
     (case c_statusValues tc of
        [] \<Rightarrow> c_title tc
      | v # _ \<Rightarrow> if v = [] then c_title tc else v)"
  by (simp add: targetStatus_def orElse_def split: list.splits)

lemma moveColumns_lookup:
  "src \<noteq> tgt \<Longrightarrow>
   moveColumns tid src sc tgt tc cols c =
     (if c = tgt then Some (tc\<lparr>taskIds := taskIds tc @ [tid]\<rparr>)
      else if c = src then Some (sc\<lparr>taskIds := remove1 tid (taskIds sc)\<rparr>)
      else cols c)"
  by (simp add: moveColumns_def)

section \<open>Outputs after a move: basic facts\<close>

lemma onDrop_success:
  assumes "draggedTaskId s = Some tid" "sourceColumnId s = Some src"
    "tid \<noteq> []" "src \<noteq> []" "tgt \<noteq> []" "src \<noteq> tgt"
  shows "onDrop (Some tgt) s = moveTask tid src tgt s"
    and "onDrop_KB (Some tgt) s = moveTask_KB tid src tgt s"
  using assms by (simp_all add: onDrop_def onDrop_KB_def)

lemma taskIdentity_cases:
  "taskIdentity t = (case recordId t of None \<Rightarrow> t_id t | Some r \<Rightarrow> if r = [] then t_id t else r)"
  by (simp add: taskIdentity_def orElse_def split: option.splits)

lemma taskIdentity_update:
  "taskIdentity (t\<lparr>status := a, isOptimistic := b\<rparr>) = taskIdentity t"
  "taskIdentity (t\<lparr>status := a\<rparr>) = taskIdentity t"
  by (simp_all add: taskIdentity_def cong: option.case_cong)

lemma getOutputs_moved:
  assumes "columns (boardData s) src = Some sc" "columns (boardData s) tgt = Some tc"
    "tasks (boardData s) tid = Some t" "src \<noteq> tgt" "tid \<noteq> []"
    "sourceColumnId s = Some src" "src \<noteq> []"
  shows "getOutputs now (moveTask tid src tgt s) =
           Inr \<lparr>updatedTasksData = boardData (moveTask tid src tgt s),
                lastMovedTask = Some \<lparr>taskId = taskIdentity t, newStatus = targetStatus tc,
                  previousStatus = Some (c_title sc), title = t_title t, timestamp = now\<rparr>\<rparr>"
  using assms
  by (simp add: moveTask_success[OF assms(1-4)] getOutputs_def lookupLastMoved_def truthy_def
        moveColumns_lookup taskIdentity_update)

lemma getOutputs_moved_dragend:
  assumes "columns (boardData s) src = Some sc" "columns (boardData s) tgt = Some tc"
    "tasks (boardData s) tid = Some t" "src \<noteq> tgt" "tid \<noteq> []"
  shows "getOutputs now (onDragEnd (moveTask tid src tgt s)) =
           Inr \<lparr>updatedTasksData = boardData (moveTask tid src tgt s),
                lastMovedTask = Some \<lparr>taskId = taskIdentity t, newStatus = targetStatus tc,
                  previousStatus = Some [], title = t_title t, timestamp = now\<rparr>\<rparr>"
  using assms
  by (simp add: moveTask_success[OF assms(1-4)] getOutputs_def lookupLastMoved_def truthy_def
        onDragEnd_def taskIdentity_update)

lemma getOutputs_KB_moved:
  assumes "columns (boardData s) src = Some sc" "columns (boardData s) tgt = Some tc"
    "tasks (boardData s) tid = Some t" "src \<noteq> tgt" "tid \<noteq> []"
  shows "getOutputs_KB now (moveTask_KB tid src tgt s) =
           \<lparr>updatedTasksData = boardData (moveTask_KB tid src tgt s),
            lastMovedTask = Some \<lparr>taskId = taskIdentity t, newStatus = targetStatus tc,
              previousStatus = None, title = t_title t, timestamp = now\<rparr>\<rparr>"
    and "getOutputs_KB now (onDragEnd (moveTask_KB tid src tgt s)) =
           \<lparr>updatedTasksData = boardData (moveTask_KB tid src tgt s),
            lastMovedTask = Some \<lparr>taskId = taskIdentity t, newStatus = targetStatus tc,
              previousStatus = None, title = t_title t, timestamp = now\<rparr>\<rparr>"
  using assms
  by (simp_all add: moveTask_KB_success[OF assms(1-4)] getOutputs_KB_def lookupLastMoved_def
        onDragEnd_def taskIdentity_update)

lemma example_session:
  "draggedTaskId exampleState = Some ''t1''" "sourceColumnId exampleState = Some ''todo''"
  by (simp_all add: exampleState_def)

section \<open>What the operations leave alone\<close>

lemma loadFromDataset_frame:
  "\<exists>b. stateAfter (loadFromDataset ctx s) = s\<lparr>boardData := b\<rparr>"
  by (auto simp: loadFromDataset_def stateAfter_def Let_def split: option.splits sum.splits prod.splits)






section \<open>The sample board and the example inputs\<close>

lemma emptyColumns_default:
  "emptyColumns getDefaultColumnDefinitions Map.empty =
     [''todo'' \<mapsto> columnOf (getDefaultColumnDefinitions ! 0),
      ''inprogress'' \<mapsto> columnOf (getDefaultColumnDefinitions ! 1),
      ''review'' \<mapsto> columnOf (getDefaultColumnDefinitions ! 2),
      ''done'' \<mapsto> columnOf (getDefaultColumnDefinitions ! 3)]"
  by (simp add: getDefaultColumnDefinitions_def numeral_3_eq_3 numeral_2_eq_2)

lemma assignSamples_default:
  "\<exists>cols. assignSamples (emptyColumns getDefaultColumnDefinitions Map.empty) = Inr cols
      \<and> isSampleColumns cols"
  unfolding emptyColumns_default
  by (simp add: assignSamples_def setTaskIds_def columnOf_def getDefaultColumnDefinitions_def
        numeral_3_eq_3 numeral_2_eq_2 isSampleColumns_def insert_commute)

lemma default_columnOrder:
  "map d_id getDefaultColumnDefinitions = [''todo'', ''inprogress'', ''review'', ''done'']"
  by (simp add: getDefaultColumnDefinitions_def)

lemma samples_default:
  "\<exists>cols. getEmptyBoardDataWithSamples getDefaultColumnDefinitions
      = Inr \<lparr>tasks = sampleTasks, columns = cols,
             columnOrder = [''todo'', ''inprogress'', ''review'', ''done'']\<rparr>
      \<and> isSampleColumns cols"
  using assignSamples_default
  by (auto simp: getEmptyBoardDataWithSamples_def default_columnOrder)

lemma samples_KB_default:
  "\<exists>cols. getEmptyBoardDataWithSamples_KB getDefaultColumnDefinitions
      = Inr \<lparr>tasks = sampleTasks_KB, columns = cols,
             columnOrder = [''todo'', ''inprogress'', ''review'', ''done'']\<rparr>
      \<and> isSampleColumns cols"
  using assignSamples_default
  by (auto simp: getEmptyBoardDataWithSamples_KB_def default_columnOrder)

lemma dom_sampleTasks:
  "dom sampleTasks = {''task-1'', ''task-2'', ''task-3'', ''task-4'', ''task-5'', ''task-6''}"
  "dom sampleTasks_KB = {''task-1'', ''task-2'', ''task-3'', ''task-4'', ''task-5'', ''task-6''}"
  by (simp_all add: sampleTasks_def sampleTasks_KB_def insert_commute)

lemma exampleParse_rejects: "exampleParse ''{\"tasks\":'' = None"
  by (simp add: exampleParse_def ghostBundle_def)

lemma example_defs: "columnDefinitions exampleState = getDefaultColumnDefinitions"
  by (simp add: exampleState_def)

lemma loadSamples_default:
  assumes "columnDefinitions s = getDefaultColumnDefinitions"
  shows "\<exists>cols. loadSamples s
           = Inr (s\<lparr>boardData := \<lparr>tasks = sampleTasks, columns = cols,
                     columnOrder = [''todo'', ''inprogress'', ''review'', ''done'']\<rparr>\<rparr>)
           \<and> isSampleColumns cols"
proof -
  obtain cols where c: "getEmptyBoardDataWithSamples getDefaultColumnDefinitions
      = Inr \<lparr>tasks = sampleTasks, columns = cols,
             columnOrder = [''todo'', ''inprogress'', ''review'', ''done'']\<rparr>"
    and i: "isSampleColumns cols"
    using samples_default by blast
  have "loadSamples s = Inr (s\<lparr>boardData := \<lparr>tasks = sampleTasks, columns = cols,
                     columnOrder = [''todo'', ''inprogress'', ''review'', ''done'']\<rparr>\<rparr>)"
    using assms c by (simp add: loadSamples_def)
  with i show ?thesis by blast
qed

lemma loadFromDataset_Inr_frame:
  assumes "loadFromDataset ctx s = Inr s1"
  shows "\<exists>b. s1 = s\<lparr>boardData := b\<rparr>"
proof -
  obtain b where "stateAfter (loadFromDataset ctx s) = s\<lparr>boardData := b\<rparr>"
    using loadFromDataset_frame by blast
  with assms have "s1 = s\<lparr>boardData := b\<rparr>" by (simp add: stateAfter_def)
  then show ?thesis by blast
qed

lemma harness_ready: "datasetReady (taskDataSet harnessContext)"
  by (simp add: datasetReady_def harnessContext_def harnessDataSet_def)

lemma harness_load:
  "loadFromDataset harnessContext exampleState
     = Inr (exampleState\<lparr>boardData := exampleBoard\<lparr>tasks := Map.empty,
              columns := clearTaskIds (columns exampleBoard)\<rparr>\<rparr>)"
  by (simp add: loadFromDataset_def harnessContext_def harnessDataSet_def Let_def
        datasetRecord_def isHarnessMock_def getValue_def exampleState_def)

lemma loadData_no_tasks:
  assumes "datasetReady (taskDataSet ctx)"
    and "loadFromDataset ctx s = Inr s1"
    and "dom (tasks (boardData s1)) = {}"
    and "columnDefinitions s = getDefaultColumnDefinitions"
  shows "\<exists>cols. loadData parse ctx s
           = Inr (s\<lparr>boardData := \<lparr>tasks = sampleTasks, columns = cols,
                     columnOrder = [''todo'', ''inprogress'', ''review'', ''done'']\<rparr>\<rparr>)
           \<and> isSampleColumns cols"
proof -
  obtain b where s1: "s1 = s\<lparr>boardData := b\<rparr>"
    using loadFromDataset_Inr_frame[OF assms(2)] by blast
  then have "columnDefinitions s1 = getDefaultColumnDefinitions"
    using assms(4) by simp
  then obtain cols where c: "loadSamples s1
           = Inr (s1\<lparr>boardData := \<lparr>tasks = sampleTasks, columns = cols,
                     columnOrder = [''todo'', ''inprogress'', ''review'', ''done'']\<rparr>\<rparr>)"
    and i: "isSampleColumns cols"
    using loadSamples_default by blast
  have "loadData parse ctx s = loadSamples s1"
    using assms(1-3) by (simp add: loadData_def)
  with c s1 have "loadData parse ctx s
           = Inr (s\<lparr>boardData := \<lparr>tasks = sampleTasks, columns = cols,
                     columnOrder = [''todo'', ''inprogress'', ''review'', ''done'']\<rparr>\<rparr>)"
    by simp
  with i show ?thesis by blast
qed

lemma updated_defs: "columnDefinitions (updateColumnDefinitions s) = getDefaultColumnDefinitions"
  by (simp add: updateColumnDefinitions_def)

lemma harness_first_load:
  "loadFromDataset harnessContext (updateColumnDefinitions newKanbanBoard)
     = Inr ((updateColumnDefinitions newKanbanBoard)
              \<lparr>boardData := (getEmptyBoardData [])\<lparr>tasks := Map.empty,
                  columns := clearTaskIds (columns (getEmptyBoardData []))\<rparr>\<rparr>)"
  by (simp add: loadFromDataset_def harnessContext_def harnessDataSet_def Let_def
        datasetRecord_def isHarnessMock_def getValue_def newKanbanBoard_def
        updateColumnDefinitions_def)

section \<open>The loop of the dataset load\<close>

lemma columnIds_push:
  "cols c = Some col \<Longrightarrow> columnIds (pushTaskId c col tid cols) = insert tid (columnIds cols)"
proof (intro set_eqI iffI)
  fix x
  assume c: "cols c = Some col" and "x \<in> columnIds (pushTaskId c col tid cols)"
  then obtain c' col' where l: "(cols(c \<mapsto> col\<lparr>taskIds := taskIds col @ [tid]\<rparr>)) c' = Some col'"
    and m: "x \<in> set (taskIds col')"
    by (auto simp: columnIds_def pushTaskId_def)
  show "x \<in> insert tid (columnIds cols)"
  proof (cases "c' = c")
    case True
    with l m c show ?thesis by (auto simp: columnIds_def)
  next
    case False
    with l m show ?thesis by (auto simp: columnIds_def)
  qed
next
  fix x
  assume c: "cols c = Some col" and x: "x \<in> insert tid (columnIds cols)"
  have p: "pushTaskId c col tid cols c = Some (col\<lparr>taskIds := taskIds col @ [tid]\<rparr>)"
    by (simp add: pushTaskId_def)
  show "x \<in> columnIds (pushTaskId c col tid cols)"
  proof (cases "x = tid")
    case True
    with p show ?thesis unfolding columnIds_def by force
  next
    case False
    with x obtain c' col' where l: "cols c' = Some col'" and m: "x \<in> set (taskIds col')"
      by (auto simp: columnIds_def)
    show ?thesis
    proof (cases "c' = c")
      case True
      with l c m p show ?thesis unfolding columnIds_def by force
    next
      case False
      then have "pushTaskId c col tid cols c' = Some col'"
        using l by (simp add: pushTaskId_def)
      with m show ?thesis unfolding columnIds_def by blast
    qed
  qed
qed

lemma dom_push: "cols c = Some col \<Longrightarrow> dom (pushTaskId c col tid cols) = dom cols"
  by (auto simp: pushTaskId_def)

lemma columnIds_clear: "columnIds (clearTaskIds cols) = {}"
  by (auto simp: columnIds_def clearTaskIds_def)

lemma dom_clear: "dom (clearTaskIds cols) = dom cols"
  by (auto simp: clearTaskIds_def dom_def)

lemma uniqueTaskIds_clear: "uniqueTaskIds (clearTaskIds cols)"
  by (auto simp: uniqueTaskIds_def clearTaskIds_def)


lemma uniqueTaskIds_push:
  assumes "uniqueTaskIds cols" "cols c = Some col" "tid \<notin> columnIds cols"
  shows "uniqueTaskIds (pushTaskId c col tid cols)"
proof -
  have notin: "\<And>c' col'. cols c' = Some col' \<Longrightarrow> tid \<notin> set (taskIds col')"
    using assms(3) by (auto simp: columnIds_def)
  have d: "\<And>c' col'. cols c' = Some col' \<Longrightarrow> distinct (taskIds col')"
    using assms(1) by (auto simp: uniqueTaskIds_def)
  have x: "\<And>c1 c2 col1 col2. cols c1 = Some col1 \<Longrightarrow> cols c2 = Some col2 \<Longrightarrow> c1 \<noteq> c2
      \<Longrightarrow> set (taskIds col1) \<inter> set (taskIds col2) = {}"
    using assms(1) unfolding uniqueTaskIds_def by blast
  show ?thesis
    unfolding uniqueTaskIds_def pushTaskId_def
  proof (intro conjI allI impI)
    fix c' col'
    assume "(cols(c \<mapsto> col\<lparr>taskIds := taskIds col @ [tid]\<rparr>)) c' = Some col'"
    then show "distinct (taskIds col')"
      using d notin assms(2) by (auto split: if_splits)
  next
    fix c1 c2 col1 col2
    assume a: "(cols(c \<mapsto> col\<lparr>taskIds := taskIds col @ [tid]\<rparr>)) c1 = Some col1"
      "(cols(c \<mapsto> col\<lparr>taskIds := taskIds col @ [tid]\<rparr>)) c2 = Some col2" "c1 \<noteq> c2"
    show "set (taskIds col1) \<inter> set (taskIds col2) = {}"
    proof (cases "c1 = c")
      case True
      then have 1: "col1 = col\<lparr>taskIds := taskIds col @ [tid]\<rparr>" and 2: "cols c2 = Some col2"
        using a by auto
      from x[OF assms(2) 2] True a(3) have "set (taskIds col) \<inter> set (taskIds col2) = {}" by blast
      with notin[OF 2] 1 show ?thesis by auto
    next
      case False
      then have 1: "cols c1 = Some col1" using a by auto
      show ?thesis
      proof (cases "c2 = c")
        case True
        then have 2: "col2 = col\<lparr>taskIds := taskIds col @ [tid]\<rparr>" using a by auto
        from x[OF 1 assms(2)] False have "set (taskIds col1) \<inter> set (taskIds col) = {}" by blast
        with notin[OF 1] 2 show ?thesis by auto
      next
        case c2: False
        then have "cols c2 = Some col2" using a by auto
        from x[OF 1 this a(3)] show ?thesis .
      qed
    qed
  qed
qed

lemma assignToColumn_Inr:
  "assignToColumn defs order task cols = Inr cols' \<Longrightarrow>
   cols' = cols \<or> (\<exists>c col. cols c = Some col \<and> cols' = pushTaskId c col (t_id task) cols)"
  by (auto simp: assignToColumn_def Let_def split: option.splits list.splits if_splits)

lemma assignToColumn_Inl:
  "assignToColumn defs order task cols = Inl (e, cols') \<Longrightarrow>
   cols' = cols \<and> (\<exists>f rest. order = f # rest \<and> f \<noteq> [] \<and> cols f = None)"
  by (auto simp: assignToColumn_def Let_def split: option.splits list.splits if_splits)

lemma assignToColumn_classified:
  "getColumnIdByStatus defs (status task) = Some c \<Longrightarrow> c \<noteq> [] \<Longrightarrow> cols c = Some col \<Longrightarrow>
   assignToColumn defs order task cols = Inr (pushTaskId c col (t_id task) cols)"
  by (simp add: assignToColumn_def Let_def)

lemma datasetRecord_Inr:
  "datasetRecord defs prev order ds rid (tk, cols) = Inr (tk', cols') \<Longrightarrow>
   (isHarnessMock ds rid \<and> tk' = tk \<and> cols' = cols)
   \<or> (\<not> isHarnessMock ds rid
       \<and> tk' = tk(t_id (loadedTask prev ds rid) \<mapsto> loadedTask prev ds rid)
       \<and> assignToColumn defs order (loadedTask prev ds rid) cols = Inr cols')"
  by (auto simp: datasetRecord_def Let_def split: if_splits sum.splits)

lemma datasetRecord_Inl:
  "datasetRecord defs prev order ds rid (tk, cols) = Inl (e, cols') \<Longrightarrow>
   \<not> isHarnessMock ds rid \<and> assignToColumn defs order (loadedTask prev ds rid) cols = Inl (e, cols')"
  by (auto simp: datasetRecord_def Let_def split: if_splits sum.splits)

lemma t_id_reconcile: "t_id (reconcile prev st task) = t_id task"
  by (simp add: reconcile_def split: option.splits)

lemma t_id_loadedTask: "t_id (loadedTask prev ds rid) = t_id (buildTask ds rid)"
  by (simp add: loadedTask_def t_id_reconcile)

lemma push_mono:
  assumes "cols c = Some col" "cols c' = Some col'"
  shows "\<exists>col''. pushTaskId c col tid cols c' = Some col'' \<and> set (taskIds col') \<subseteq> set (taskIds col'')"
  using assms by (cases "c' = c") (auto simp: pushTaskId_def)

lemma datasetRecord_mono:
  assumes "datasetRecord defs prev order ds rid (tk, cols) = Inr (tk', cols')" "cols c = Some col"
  shows "\<exists>col'. cols' c = Some col' \<and> set (taskIds col) \<subseteq> set (taskIds col')"
proof -
  from datasetRecord_Inr[OF assms(1)]
  have "cols' = cols \<or> (\<exists>c0 col0. cols c0 = Some col0
          \<and> cols' = pushTaskId c0 col0 (t_id (loadedTask prev ds rid)) cols)"
    using assignToColumn_Inr by blast
  then show ?thesis
  proof
    assume "cols' = cols"
    with assms(2) show ?thesis by auto
  next
    assume "\<exists>c0 col0. cols c0 = Some col0
          \<and> cols' = pushTaskId c0 col0 (t_id (loadedTask prev ds rid)) cols"
    then obtain c0 col0 where "cols c0 = Some col0"
      and "cols' = pushTaskId c0 col0 (t_id (loadedTask prev ds rid)) cols" by blast
    with push_mono[of cols c0 col0 c col] assms(2) show ?thesis by blast
  qed
qed

lemma datasetLoop_mono:
  "datasetLoop defs prev order ds ids (tk, cols) = Inr (tk', cols') \<Longrightarrow> cols c = Some col \<Longrightarrow>
   \<exists>col'. cols' c = Some col' \<and> set (taskIds col) \<subseteq> set (taskIds col')"
proof (induction ids arbitrary: tk cols col)
  case Nil
  then show ?case by auto
next
  case (Cons rid rids)
  from Cons.prems(1) obtain tk1 cols1
    where h: "datasetRecord defs prev order ds rid (tk, cols) = Inr (tk1, cols1)"
      and t: "datasetLoop defs prev order ds rids (tk1, cols1) = Inr (tk', cols')"
    by (auto split: sum.splits)
  from datasetRecord_mono[OF h Cons.prems(2)] obtain col1
    where c1: "cols1 c = Some col1" and s1: "set (taskIds col) \<subseteq> set (taskIds col1)" by blast
  from Cons.IH[OF t c1] obtain col' where "cols' c = Some col'"
    and "set (taskIds col1) \<subseteq> set (taskIds col')" by blast
  with s1 show ?case by blast
qed

lemma datasetLoop_classified:
  assumes "datasetLoop defs prev order ds ids (tk, cols) = Inr (tk', cols')"
    and "rid \<in> set ids" and "\<not> isHarnessMock ds rid"
    and "getColumnIdByStatus defs (status (loadedTask prev ds rid)) = Some c" and "c \<noteq> []"
    and "cols c = Some col"
  shows "\<exists>col'. cols' c = Some col' \<and> t_id (loadedTask prev ds rid) \<in> set (taskIds col')"
  using assms(1,2,6)
proof (induction ids arbitrary: tk cols col)
  case Nil
  then show ?case by simp
next
  case (Cons r rids)
  from Cons.prems(1) obtain tk1 cols1
    where h: "datasetRecord defs prev order ds r (tk, cols) = Inr (tk1, cols1)"
      and t: "datasetLoop defs prev order ds rids (tk1, cols1) = Inr (tk', cols')"
    by (auto split: sum.splits)
  show ?case
  proof (cases "r = rid")
    case True
    from datasetRecord_Inr[OF h] assms(3) True
    have "assignToColumn defs order (loadedTask prev ds rid) cols = Inr cols1" by auto
    with assignToColumn_classified[of defs "loadedTask prev ds rid" c cols col order]
      assms(4,5) Cons.prems(3)
    have "cols1 = pushTaskId c col (t_id (loadedTask prev ds rid)) cols" by simp
    then have "cols1 c = Some (col\<lparr>taskIds := taskIds col @ [t_id (loadedTask prev ds rid)]\<rparr>)"
      by (simp add: pushTaskId_def)
    from datasetLoop_mono[OF t this] show ?thesis by auto
  next
    case False
    with Cons.prems(2) have m: "rid \<in> set rids" by simp
    from datasetRecord_mono[OF h Cons.prems(3)] obtain col1 where "cols1 c = Some col1" by blast
    from Cons.IH[OF t m this] show ?thesis .
  qed
qed

lemma datasetLoop_tasks:
  assumes "datasetLoop defs prev order ds ids (tk, cols) = Inr (tk', cols')"
    and "\<forall>rid' \<in> set ids. \<not> isHarnessMock ds rid' \<and> t_id (loadedTask prev ds rid') = k
           \<longrightarrow> loadedTask prev ds rid' = r"
    and "(\<exists>rid \<in> set ids. \<not> isHarnessMock ds rid \<and> t_id (loadedTask prev ds rid) = k) \<or> tk k = Some r"
  shows "tk' k = Some r"
  using assms
proof (induction ids arbitrary: tk cols)
  case Nil
  then show ?case by simp
next
  case (Cons rid rids)
  from Cons.prems(1) obtain tk1 cols1
    where h: "datasetRecord defs prev order ds rid (tk, cols) = Inr (tk1, cols1)"
      and t: "datasetLoop defs prev order ds rids (tk1, cols1) = Inr (tk', cols')"
    by (auto split: sum.splits)
  have a: "\<forall>rid' \<in> set rids. \<not> isHarnessMock ds rid' \<and> t_id (loadedTask prev ds rid') = k
           \<longrightarrow> loadedTask prev ds rid' = r"
    using Cons.prems(2) by simp
  have b: "(\<exists>rid \<in> set rids. \<not> isHarnessMock ds rid \<and> t_id (loadedTask prev ds rid) = k)
           \<or> tk1 k = Some r"
  proof (cases "\<exists>rid \<in> set rids. \<not> isHarnessMock ds rid \<and> t_id (loadedTask prev ds rid) = k")
    case True
    then show ?thesis by blast
  next
    case False
    with Cons.prems(3)
    have c: "(\<not> isHarnessMock ds rid \<and> t_id (loadedTask prev ds rid) = k) \<or> tk k = Some r"
      by auto
    from datasetRecord_Inr[OF h]
    have "tk1 k = Some r"
    proof
      assume "isHarnessMock ds rid \<and> tk1 = tk \<and> cols1 = cols"
      with c show ?thesis by auto
    next
      assume n: "\<not> isHarnessMock ds rid
        \<and> tk1 = tk(t_id (loadedTask prev ds rid) \<mapsto> loadedTask prev ds rid)
        \<and> assignToColumn defs order (loadedTask prev ds rid) cols = Inr cols1"
      show ?thesis
      proof (cases "t_id (loadedTask prev ds rid) = k")
        case True
        with n Cons.prems(2) have "loadedTask prev ds rid = r" by simp
        with n True show ?thesis by simp
      next
        case False
        with c n show ?thesis by simp
      qed
    qed
    then show ?thesis by blast
  qed
  from Cons.IH[OF t a b] show ?case .
qed

lemma datasetRecord_dom:
  "datasetRecord defs prev order ds rid (tk, cols) = Inr (tk', cols') \<Longrightarrow> dom cols' = dom cols"
  using datasetRecord_Inr assignToColumn_Inr dom_push by metis



lemma datasetLoop_returns:
  assumes "order = [] \<or> hd order = [] \<or> hd order \<in> dom cols"
  shows "\<exists>acc'. datasetLoop defs prev order ds ids (tk, cols) = Inr acc'"
  using assms
proof (induction ids arbitrary: tk cols)
  case Nil
  then show ?case by simp
next
  case (Cons rid rids)
  show ?case
  proof (cases "datasetRecord defs prev order ds rid (tk, cols)")
    case (Inl x)
    obtain e cols' where "x = (e, cols')" by (cases x)
    with Inl datasetRecord_Inl[of defs prev order ds rid tk cols e cols']
      assignToColumn_Inl[of defs order "loadedTask prev ds rid" cols e cols']
    obtain f rest where "order = f # rest" "f \<noteq> []" "cols f = None" by blast
    with Cons.prems show ?thesis by auto
  next
    case (Inr acc1)
    obtain tk1 cols1 where a: "acc1 = (tk1, cols1)" by (cases acc1)
    with Inr datasetRecord_dom have "dom cols1 = dom cols" by blast
    with Cons.prems have "order = [] \<or> hd order = [] \<or> hd order \<in> dom cols1" by simp
    from Cons.IH[OF this, of tk1] Inr a show ?thesis by simp
  qed
qed

lemma loadFromDataset_Inr_loop:
  assumes "taskDataSet ctx = Some ds" "sortedRecordIds ds = Some ids"
    "loadFromDataset ctx s = Inr s'"
  shows "\<exists>tk cols. datasetLoop (columnDefinitions s) (tasks (boardData s))
            (columnOrder (boardData s)) ds ids (Map.empty, clearTaskIds (columns (boardData s)))
            = Inr (tk, cols)
          \<and> s' = s\<lparr>boardData := (boardData s)\<lparr>tasks := tk, columns := cols\<rparr>\<rparr>"
  using assms
  by (auto simp: loadFromDataset_def Let_def split: sum.splits prod.splits)

lemma loadFromDataset_returns:
  assumes "firstColumnPresent (boardData s)"
  shows "\<exists>s'. loadFromDataset ctx s = Inr s'"
proof (cases "taskDataSet ctx")
  case None
  then show ?thesis by (simp add: loadFromDataset_def Let_def)
next
  case (Some ds)
  show ?thesis
  proof (cases "sortedRecordIds ds")
    case None
    with Some show ?thesis by (simp add: loadFromDataset_def Let_def)
  next
    case (Some ids)
    have "columnOrder (boardData s) = [] \<or> hd (columnOrder (boardData s)) = []
        \<or> hd (columnOrder (boardData s)) \<in> dom (clearTaskIds (columns (boardData s)))"
      using assms by (auto simp: firstColumnPresent_def dom_clear split: list.splits)
    from datasetLoop_returns[OF this, of "columnDefinitions s" "tasks (boardData s)" ds ids Map.empty]
    obtain acc' where "datasetLoop (columnDefinitions s) (tasks (boardData s))
            (columnOrder (boardData s)) ds ids (Map.empty, clearTaskIds (columns (boardData s)))
            = Inr acc'" by blast
    with Some \<open>taskDataSet ctx = Some ds\<close> show ?thesis
      by (cases acc') (simp add: loadFromDataset_def Let_def)
  qed
qed

lemma datasetLoop_append:
  "datasetLoop defs prev order ds (xs @ ys) acc =
     (case datasetLoop defs prev order ds xs acc of
        Inl e \<Rightarrow> Inl e
      | Inr acc' \<Rightarrow> datasetLoop defs prev order ds ys acc')"
  by (induction xs arbitrary: acc) (auto split: sum.splits)

lemma datasetLoop_tasks_last:
  assumes "datasetLoop defs prev order ds (pre @ rid # post) (tk, cols) = Inr (tk', cols')"
    and "\<not> isHarnessMock ds rid"
    and "\<forall>rid' \<in> set post. isHarnessMock ds rid'
           \<or> t_id (loadedTask prev ds rid') \<noteq> t_id (loadedTask prev ds rid)"
  shows "tk' (t_id (loadedTask prev ds rid)) = Some (loadedTask prev ds rid)"
proof -
  from assms(1) obtain acc1 where "datasetLoop defs prev order ds pre (tk, cols) = Inr acc1"
    and r: "datasetLoop defs prev order ds (rid # post) acc1 = Inr (tk', cols')"
    by (auto simp: datasetLoop_append split: sum.splits)
  obtain tk1 cols1 where a1: "acc1 = (tk1, cols1)" by (cases acc1)
  from r a1 obtain tk2 cols2
    where h: "datasetRecord defs prev order ds rid (tk1, cols1) = Inr (tk2, cols2)"
      and t: "datasetLoop defs prev order ds post (tk2, cols2) = Inr (tk', cols')"
    by (auto split: sum.splits)
  from datasetRecord_Inr[OF h] assms(2)
  have "tk2 (t_id (loadedTask prev ds rid)) = Some (loadedTask prev ds rid)" by auto
  then have e: "(\<exists>rid' \<in> set post. \<not> isHarnessMock ds rid'
        \<and> t_id (loadedTask prev ds rid') = t_id (loadedTask prev ds rid))
      \<or> tk2 (t_id (loadedTask prev ds rid)) = Some (loadedTask prev ds rid)" by blast
  have u: "\<forall>rid' \<in> set post. \<not> isHarnessMock ds rid'
        \<and> t_id (loadedTask prev ds rid') = t_id (loadedTask prev ds rid)
           \<longrightarrow> loadedTask prev ds rid' = loadedTask prev ds rid"
    using assms(3) by blast
  from datasetLoop_tasks[OF t u e] show ?thesis .
qed

lemma reconcile_cases:
  "(case prev (t_id inc) of
      None \<Rightarrow> reconcile prev (status inc) inc = inc
    | Some held \<Rightarrow>
        if isOptimistic held \<noteq> Some True then reconcile prev (status inc) inc = inc
        else if status inc \<noteq> status held
          then reconcile prev (status inc) inc = inc\<lparr>status := status held, isOptimistic := Some True\<rparr>
          else reconcile prev (status inc) inc = inc\<lparr>isOptimistic := Some False\<rparr>)"
  by (auto simp: reconcile_def split: option.splits)

lemma loadedTask_reconcile:
  "loadedTask prev ds rid = reconcile prev (status (buildTask ds rid)) (buildTask ds rid)"
  by (simp add: loadedTask_def buildTask_def)

lemma moved_example:
  "tasks (boardData (moveTask ''t1'' ''todo'' ''done'' exampleState)) ''t1''
     = Some ((exampleTask ''t1'' ''Todo'' (Some ''rec-1''))\<lparr>status := ''Done'', isOptimistic := Some True\<rparr>)"
  "columnOrder (boardData (moveTask ''t1'' ''todo'' ''done'' exampleState)) = [''todo'', ''done'', ''misc'']"
  "columns (boardData (moveTask ''t1'' ''todo'' ''done'' exampleState)) ''todo''
     = Some (exampleColumn ''todo'' ''To Do'' [] [''Todo'', ''New'', ''Open''])"
  by (simp_all add: moveTask_def example_lookups Let_def targetStatus_def orElse_def
        moveColumns_def exampleColumn_def exampleBoard_def)

lemma stale_example:
  "taskDataSet staleContext = Some staleDataSet"
  "sortedRecordIds staleDataSet = Some ([] @ ''rec-1'' # [])"
  "\<not> isHarnessMock staleDataSet ''rec-1''"
  "t_id (buildTask staleDataSet ''rec-1'') = ''t1''"
  "status (buildTask staleDataSet ''rec-1'') = ''Todo''"
  by (simp_all add: staleContext_def staleDataSet_def isHarnessMock_def getValue_def buildTask_def
        orElse_def)

lemma classify_Done: "getColumnIdByStatus getDefaultColumnDefinitions ''Done'' = Some ''done''"
  by code_simp

section \<open>Moves that do nothing\<close>



section \<open>The effect of a move\<close>

text \<open>
  Claim C1, as the code has it. When the task and both columns exist and the columns
  differ, \<^verbatim>\<open>moveTask\<close> removes the first occurrence of the task id from the source
  column's list (\<open>remove1\<close>), appends the id to the target column's list, leaves every
  other column, every other task and the column order alone, and calls
  \<^verbatim>\<open>_notifyOutputChanged\<close> once. The task's status becomes the target column's first
  status value if the column has one and it is not the empty string, and the column's
  title otherwise. The control with dataset support sets \<^verbatim>\<open>isOptimistic\<close> to
  \<^verbatim>\<open>true\<close>; the \<^verbatim>\<open>moveTask\<close> of \<^verbatim>\<open>KanbanBoard/index.ts\<close> does the same to the
  columns and the status and leaves the other fields of the task as they are.
\<close>

theorem moveTask_effect:
  assumes "columns (boardData s) src = Some sc" and "columns (boardData s) tgt = Some tc"
    and "tasks (boardData s) tid = Some t" and "src \<noteq> tgt"
  shows "columns (boardData (moveTask tid src tgt s)) src
           = Some (sc\<lparr>taskIds := remove1 tid (taskIds sc)\<rparr>)
       \<and> columns (boardData (moveTask tid src tgt s)) tgt
           = Some (tc\<lparr>taskIds := taskIds tc @ [tid]\<rparr>)
       \<and> (\<forall>c. c \<noteq> src \<and> c \<noteq> tgt \<longrightarrow>
            columns (boardData (moveTask tid src tgt s)) c = columns (boardData s) c)
       \<and> tasks (boardData (moveTask tid src tgt s)) tid
           = Some (t\<lparr>status := (case c_statusValues tc of
                                  [] \<Rightarrow> c_title tc
                                | v # _ \<Rightarrow> if v = [] then c_title tc else v),
                     isOptimistic := Some True\<rparr>)
       \<and> (\<forall>k. k \<noteq> tid \<longrightarrow>
            tasks (boardData (moveTask tid src tgt s)) k = tasks (boardData s) k)
       \<and> columnOrder (boardData (moveTask tid src tgt s)) = columnOrder (boardData s)
       \<and> notifications (moveTask tid src tgt s) = notifications s + 1
       \<and> columns (boardData (moveTask_KB tid src tgt s))
           = columns (boardData (moveTask tid src tgt s))
       \<and> tasks (boardData (moveTask_KB tid src tgt s)) tid
           = Some (t\<lparr>status := (case c_statusValues tc of
                                  [] \<Rightarrow> c_title tc
                                | v # _ \<Rightarrow> if v = [] then c_title tc else v)\<rparr>)
       \<and> notifications (moveTask_KB tid src tgt s) = notifications s + 1"
  using assms
  by (simp add: moveTask_success[OF assms] moveTask_KB_success[OF assms] moveColumns_lookup
        targetStatus_cases)

theorem moveTask_effect_witness:
  "taskIds (the (columns (boardData (moveTask ''t1'' ''todo'' ''done'' exampleState)) ''todo'')) = []
   \<and> taskIds (the (columns (boardData (moveTask ''t1'' ''todo'' ''done'' exampleState)) ''done'')) = [''t1'']
   \<and> status (the (tasks (boardData (moveTask ''t1'' ''todo'' ''done'' exampleState)) ''t1'')) = ''Done''
   \<and> isOptimistic (the (tasks (boardData (moveTask ''t1'' ''todo'' ''done'' exampleState)) ''t1'')) = Some True
   \<and> notifications (moveTask ''t1'' ''todo'' ''done'' exampleState) = 1"
  using moveTask_effect[of exampleState "''todo''" _ "''done''" _ "''t1''" _,
      OF example_lookups(2)[folded example_lookups(1)] example_lookups(3)[folded example_lookups(1)]
         example_lookups(6)[folded example_lookups(1)]]
  by (simp add: exampleColumn_def exampleTask_def exampleState_def)

text \<open>
  The claim as it stands gives the task the first status value whenever the target column
  has one. In \<open>exampleState\<close> the column \<^verbatim>\<open>misc\<close> has the single status value
  \<^verbatim>\<open>""\<close>, which is falsy in \<^verbatim>\<open>statusValues[0] || title\<close>: the task gets the title
  \<^verbatim>\<open>"Misc"\<close>. And \<^verbatim>\<open>KanbanBoard/index.ts\<close> does not set \<^verbatim>\<open>isOptimistic\<close>.
\<close>

theorem moveTask_empty_alias_counterexample:
  "c_statusValues (the (columns (boardData exampleState) ''misc'')) = ['''']
   \<and> status (the (tasks (boardData (moveTask ''t1'' ''todo'' ''misc'' exampleState)) ''t1''))
       = ''Misc''
   \<and> isOptimistic (the (tasks (boardData (moveTask_KB ''t1'' ''todo'' ''done'' exampleState)) ''t1''))
       = None"
  by (simp add: moveTask_def moveTask_KB_def example_lookups Let_def targetStatus_def orElse_def
        exampleColumn_def exampleTask_def)

section \<open>Ids in the columns and keys of the task map\<close>

lemma columnIds_upd_empty:
  "columnIds cols = {} \<Longrightarrow> taskIds col = [] \<Longrightarrow> columnIds (cols(c \<mapsto> col)) = {}"
  unfolding columnIds_def by (auto split: if_splits)

lemma emptyColumns_columnIds:
  "columnIds cols = {} \<Longrightarrow> columnIds (emptyColumns defs cols) = {}"
proof (induction defs arbitrary: cols)
  case Nil
  then show ?case by simp
next
  case (Cons d ds)
  have "columnIds (cols(d_id d \<mapsto> columnOf d)) = {}"
    using Cons.prems by (rule columnIds_upd_empty) (simp add: columnOf_def)
  then show ?case using Cons.IH by simp
qed

lemma emptyColumns_dom:
  "dom (emptyColumns defs cols) = dom cols \<union> set (map d_id defs)"
  by (induction defs arbitrary: cols) auto

lemma columnIds_empty_map: "columnIds Map.empty = {}"
  by (simp add: columnIds_def)

lemma getEmptyBoardData_facts:
  "columnIds (columns (getEmptyBoardData defs)) = {}"
  "dom (columns (getEmptyBoardData defs)) = set (map d_id defs)"
  "columnOrder (getEmptyBoardData defs) = map d_id defs"
  "tasks (getEmptyBoardData defs) = Map.empty"
  by (simp_all add: getEmptyBoardData_def emptyColumns_columnIds columnIds_empty_map emptyColumns_dom)





lemma legacyTask_result:
  assumes "legacyTask defs task b = Inr b' \<or> legacyTask defs task b = Inl (e, b')"
  shows "tasks b' = (tasks b)(t_id task \<mapsto> task) \<and> columnOrder b' = columnOrder b
       \<and> (columns b' = columns b
           \<or> (\<exists>c col. columns b c = Some col
                 \<and> columns b' = pushTaskId c col (t_id task) (columns b)))"
proof (cases "getColumnIdByStatus defs (status task)")
  case None
  with assms show ?thesis by (auto simp: legacyTask_def Let_def)
next
  case (Some colId)
  show ?thesis
  proof (cases "colId = []")
    case True
    with Some assms show ?thesis by (auto simp: legacyTask_def Let_def)
  next
    case False
    show ?thesis
    proof (cases "columns b colId")
      case None
      with Some False assms show ?thesis by (auto simp: legacyTask_def Let_def)
    next
      case (Some col)
      with \<open>getColumnIdByStatus defs (status task) = Some colId\<close> False assms
      have "b' = b\<lparr>tasks := (tasks b)(t_id task \<mapsto> task),
                     columns := pushTaskId colId col (t_id task) (columns b)\<rparr>"
        by (auto simp: legacyTask_def Let_def)
      with Some show ?thesis by auto
    qed
  qed
qed












lemma loadFromLegacyData_object:
  assumes "parse raw = Some (PObject t c ord)"
  shows "boardData (loadFromLegacyData parse raw s) =
           \<lparr>tasks = (case t of None \<Rightarrow> Map.empty | Some t' \<Rightarrow> t'),
            columns = (case c of
                         None \<Rightarrow> columns (getEmptyBoardData (columnDefinitions s))
                       | Some c' \<Rightarrow> c'),
            columnOrder = (case ord of None \<Rightarrow> map d_id (columnDefinitions s) | Some ord' \<Rightarrow> ord')\<rparr>"
  using assms
  by (simp add: loadFromLegacyData_def getEmptyBoardData_facts Let_def split: option.splits)

lemma exampleParse_values:
  "exampleParse ''[]'' = Some (PArray [])"
  "exampleParse ghostBundle
     = Some (PObject None
               (Some [''todo'' \<mapsto> exampleColumn ''todo'' ''To Do'' [''ghost''] [''Todo'']]) None)"
  by (simp_all add: exampleParse_def ghostBundle_def)

lemma exampleParse_more:
  "exampleParse ''42'' = Some PScalar" "exampleParse ''null'' = Some PNull"
  by (simp_all add: exampleParse_def)

section \<open>Ids that occur once\<close>

lemma uniqueTaskIds_no_ids:
  assumes "columnIds cols = {}"
  shows "uniqueTaskIds cols"
proof -
  have "\<And>c col. cols c = Some col \<Longrightarrow> taskIds col = []"
  proof -
    fix c col assume "cols c = Some col"
    then have "set (taskIds col) \<subseteq> columnIds cols" by (auto simp: columnIds_def)
    with assms show "taskIds col = []" by simp
  qed
  then show ?thesis unfolding uniqueTaskIds_def by fastforce
qed

lemma moveTask_KB_columns:
  "columns (boardData (moveTask_KB tid src tgt s)) = columns (boardData (moveTask tid src tgt s))"
  by (simp add: moveTask_def moveTask_KB_def Let_def split: option.splits)

lemma moveTask_unique:
  assumes "uniqueTaskIds (columns (boardData s))"
    and "\<forall>c col. columns (boardData s) c = Some col \<and> tid \<in> set (taskIds col) \<longrightarrow> c = src"
  shows "uniqueTaskIds (columns (boardData (moveTask tid src tgt s)))"
proof (cases "moveTask tid src tgt s = s")
  case True
  with assms show ?thesis by simp
next
  case False
  then obtain sc tc t where l: "columns (boardData s) src = Some sc"
    "columns (boardData s) tgt = Some tc" "tasks (boardData s) tid = Some t" "src \<noteq> tgt"
    by (auto simp: moveTask_def Let_def split: option.splits if_splits)
  let ?cols = "columns (boardData s)"
  let ?cols' = "columns (boardData (moveTask tid src tgt s))"
  have c: "\<And>c. ?cols' c =
     (if c = tgt then Some (tc\<lparr>taskIds := taskIds tc @ [tid]\<rparr>)
      else if c = src then Some (sc\<lparr>taskIds := remove1 tid (taskIds sc)\<rparr>)
      else ?cols c)"
    by (simp add: moveTask_success[OF l] moveColumns_lookup[OF l(4)])
  have d: "\<And>c col. ?cols c = Some col \<Longrightarrow> distinct (taskIds col)"
    using assms(1) by (auto simp: uniqueTaskIds_def)
  have x: "\<And>c1 c2 col1 col2. ?cols c1 = Some col1 \<Longrightarrow> ?cols c2 = Some col2 \<Longrightarrow> c1 \<noteq> c2
      \<Longrightarrow> set (taskIds col1) \<inter> set (taskIds col2) = {}"
    using assms(1) unfolding uniqueTaskIds_def by blast
  have only: "\<And>c col. ?cols c = Some col \<Longrightarrow> c \<noteq> src \<Longrightarrow> tid \<notin> set (taskIds col)"
    using assms(2) by blast
  have nsrc: "tid \<notin> set (remove1 tid (taskIds sc))"
    using d[OF l(1)] by simp
  have sub: "set (remove1 tid (taskIds sc)) \<subseteq> set (taskIds sc)"
    by (rule set_remove1_subset)
  have after: "\<And>c col'. ?cols' c = Some col' \<Longrightarrow>
      \<exists>col. ?cols c = Some col \<and> distinct (taskIds col')
        \<and> set (taskIds col') \<subseteq> (if c = tgt then insert tid (set (taskIds col)) else set (taskIds col))
        \<and> (c \<noteq> tgt \<longrightarrow> tid \<notin> set (taskIds col'))"
  proof -
    fix c col' assume a: "?cols' c = Some col'"
    show "\<exists>col. ?cols c = Some col \<and> distinct (taskIds col')
        \<and> set (taskIds col') \<subseteq> (if c = tgt then insert tid (set (taskIds col)) else set (taskIds col))
        \<and> (c \<noteq> tgt \<longrightarrow> tid \<notin> set (taskIds col'))"
    proof (cases "c = tgt")
      case True
      with a c have "col' = tc\<lparr>taskIds := taskIds tc @ [tid]\<rparr>" by simp
      with True l(2) d[OF l(2)] only[OF l(2)] l(4) show ?thesis by auto
    next
      case False
      show ?thesis
      proof (cases "c = src")
        case True
        with a c False have "col' = sc\<lparr>taskIds := remove1 tid (taskIds sc)\<rparr>" by simp
        with True False l(1) d[OF l(1)] nsrc sub show ?thesis by auto
      next
        case s: False
        with a c False have "?cols c = Some col'" by simp
        with False s d only show ?thesis by auto
      qed
    qed
  qed
  show ?thesis
    unfolding uniqueTaskIds_def
  proof (intro conjI allI impI)
    fix c col'
    assume "?cols' c = Some col'"
    from after[OF this] show "distinct (taskIds col')" by blast
  next
    fix c1 c2 col1 col2
    assume a: "?cols' c1 = Some col1" "?cols' c2 = Some col2" "c1 \<noteq> c2"
    from after[OF a(1)] obtain o1 where o1: "?cols c1 = Some o1"
      "set (taskIds col1) \<subseteq> (if c1 = tgt then insert tid (set (taskIds o1)) else set (taskIds o1))"
      "c1 \<noteq> tgt \<longrightarrow> tid \<notin> set (taskIds col1)" by blast
    from after[OF a(2)] obtain o2 where o2: "?cols c2 = Some o2"
      "set (taskIds col2) \<subseteq> (if c2 = tgt then insert tid (set (taskIds o2)) else set (taskIds o2))"
      "c2 \<noteq> tgt \<longrightarrow> tid \<notin> set (taskIds col2)" by blast
    from x[OF o1(1) o2(1) a(3)] have dis: "set (taskIds o1) \<inter> set (taskIds o2) = {}" .
    show "set (taskIds col1) \<inter> set (taskIds col2) = {}"
    proof (cases "c1 = tgt")
      case True
      with a(3) have "c2 \<noteq> tgt" by simp
      with o1 o2 dis True show ?thesis by auto
    next
      case False
      with o1 o2 dis show ?thesis by (auto split: if_splits)
    qed
  qed
qed

lemma datasetRecord_unique:
  assumes "uniqueTaskIds cols"
    and "isHarnessMock ds rid \<or> t_id (buildTask ds rid) \<notin> columnIds cols"
  shows "case datasetRecord defs prev order ds rid (tk, cols) of
           Inl (e, c) \<Rightarrow> c = cols
         | Inr (t, c) \<Rightarrow> uniqueTaskIds c
             \<and> columnIds c \<subseteq> (if isHarnessMock ds rid then columnIds cols
                               else insert (t_id (buildTask ds rid)) (columnIds cols))"
proof (cases "datasetRecord defs prev order ds rid (tk, cols)")
  case (Inl x)
  obtain e c where x: "x = (e, c)" by (cases x)
  with Inl datasetRecord_Inl[of defs prev order ds rid tk cols e c]
    assignToColumn_Inl[of defs order "loadedTask prev ds rid" cols e c]
  have "c = cols" by blast
  with Inl x show ?thesis by simp
next
  case (Inr y)
  obtain t c where y: "y = (t, c)" by (cases y)
  from datasetRecord_Inr[of defs prev order ds rid tk cols t c] Inr y
  have "(isHarnessMock ds rid \<and> c = cols)
      \<or> (\<not> isHarnessMock ds rid
          \<and> assignToColumn defs order (loadedTask prev ds rid) cols = Inr c)" by auto
  then have "uniqueTaskIds c
             \<and> columnIds c \<subseteq> (if isHarnessMock ds rid then columnIds cols
                               else insert (t_id (buildTask ds rid)) (columnIds cols))"
  proof
    assume "isHarnessMock ds rid \<and> c = cols"
    with assms(1) show ?thesis by simp
  next
    assume n: "\<not> isHarnessMock ds rid
          \<and> assignToColumn defs order (loadedTask prev ds rid) cols = Inr c"
    with assms(2) have f: "t_id (buildTask ds rid) \<notin> columnIds cols" by simp
    from n assignToColumn_Inr[of defs order "loadedTask prev ds rid" cols c]
    have "c = cols \<or> (\<exists>c0 col0. cols c0 = Some col0
        \<and> c = pushTaskId c0 col0 (t_id (buildTask ds rid)) cols)"
      by (simp add: t_id_loadedTask)
    then show ?thesis
    proof
      assume "c = cols"
      with assms(1) n show ?thesis by auto
    next
      assume "\<exists>c0 col0. cols c0 = Some col0
        \<and> c = pushTaskId c0 col0 (t_id (buildTask ds rid)) cols"
      then obtain c0 col0 where p: "cols c0 = Some col0"
        "c = pushTaskId c0 col0 (t_id (buildTask ds rid)) cols" by blast
      from uniqueTaskIds_push[OF assms(1) p(1) f]
        columnIds_push[of cols c0 col0 "t_id (buildTask ds rid)"] p n
      show ?thesis by simp
    qed
  qed
  with Inr y show ?thesis by simp
qed

lemma loadedIds_Cons:
  "loadedIds ds (rid # rids) =
     (if isHarnessMock ds rid then loadedIds ds rids
      else t_id (buildTask ds rid) # loadedIds ds rids)"
  by (simp add: loadedIds_def)

lemma datasetLoop_unique:
  assumes "uniqueTaskIds cols" and "distinct (loadedIds ds ids)"
    and "columnIds cols \<inter> set (loadedIds ds ids) = {}"
  shows "case datasetLoop defs prev order ds ids (tk, cols) of
           Inl (e, c) \<Rightarrow> uniqueTaskIds c
         | Inr (t, c) \<Rightarrow> uniqueTaskIds c"
  using assms
proof (induction ids arbitrary: tk cols)
  case Nil
  then show ?case by simp
next
  case (Cons rid rids)
  have g: "isHarnessMock ds rid \<or> t_id (buildTask ds rid) \<notin> columnIds cols"
    using Cons.prems(3) by (auto simp: loadedIds_Cons split: if_splits)
  note r = datasetRecord_unique[OF Cons.prems(1) g, of defs prev order tk]
  show ?case
  proof (cases "datasetRecord defs prev order ds rid (tk, cols)")
    case (Inl x)
    obtain e c where x: "x = (e, c)" by (cases x)
    with r Inl have "c = cols" by simp
    with Inl x Cons.prems(1) show ?thesis by simp
  next
    case (Inr y)
    obtain t c where y: "y = (t, c)" by (cases y)
    with r Inr have u: "uniqueTaskIds c"
      and s: "columnIds c \<subseteq> (if isHarnessMock ds rid then columnIds cols
                               else insert (t_id (buildTask ds rid)) (columnIds cols))"
      by simp_all
    have d: "distinct (loadedIds ds rids)"
      using Cons.prems(2) by (simp add: loadedIds_Cons split: if_splits)
    have i: "columnIds c \<inter> set (loadedIds ds rids) = {}"
      using s Cons.prems(2,3) by (auto simp: loadedIds_Cons split: if_splits)
    from Cons.IH[OF u d i, of t] Inr y show ?thesis by simp
  qed
qed

lemma loadFromDataset_unique:
  assumes "case taskDataSet ctx of
             None \<Rightarrow> True
           | Some ds \<Rightarrow> (case sortedRecordIds ds of
                          None \<Rightarrow> True
                        | Some ids \<Rightarrow> distinct (loadedIds ds ids))"
  shows "uniqueTaskIds (columns (boardData (stateAfter (loadFromDataset ctx s))))"
proof (cases "\<exists>ds ids. taskDataSet ctx = Some ds \<and> sortedRecordIds ds = Some ids")
  case True
  then obtain ds ids where d: "taskDataSet ctx = Some ds" "sortedRecordIds ds = Some ids" by blast
  with assms have di: "distinct (loadedIds ds ids)" by simp
  let ?cleared = "clearTaskIds (columns (boardData s))"
  have "columnIds ?cleared \<inter> set (loadedIds ds ids) = {}"
    by (simp add: columnIds_clear)
  from datasetLoop_unique[OF uniqueTaskIds_clear di this,
      of "columnDefinitions s" "tasks (boardData s)" "columnOrder (boardData s)" Map.empty]
  show ?thesis
    using d
    by (auto simp: loadFromDataset_def stateAfter_def Let_def split: sum.splits prod.splits)
next
  case False
  then have "stateAfter (loadFromDataset ctx s)
      = s\<lparr>boardData := (boardData s)\<lparr>columns := clearTaskIds (columns (boardData s))\<rparr>\<rparr>"
    by (auto simp: loadFromDataset_def stateAfter_def Let_def split: option.splits)
  then show ?thesis by (simp add: uniqueTaskIds_clear)
qed

lemma legacyTask_unique:
  assumes "legacyTask defs task b = Inr b' \<or> legacyTask defs task b = Inl (e, b')"
    and "uniqueTaskIds (columns b)" and "t_id task \<notin> columnIds (columns b)"
  shows "uniqueTaskIds (columns b')
       \<and> columnIds (columns b') \<subseteq> insert (t_id task) (columnIds (columns b))"
proof -
  from legacyTask_result[OF assms(1)]
  have "columns b' = columns b
           \<or> (\<exists>c col. columns b c = Some col
                 \<and> columns b' = pushTaskId c col (t_id task) (columns b))" by simp
  then show ?thesis
  proof
    assume "columns b' = columns b"
    with assms(2) show ?thesis by auto
  next
    assume "\<exists>c col. columns b c = Some col
                 \<and> columns b' = pushTaskId c col (t_id task) (columns b)"
    then obtain c col where p: "columns b c = Some col"
      "columns b' = pushTaskId c col (t_id task) (columns b)" by blast
    from uniqueTaskIds_push[OF assms(2) p(1) assms(3)]
      columnIds_push[of "columns b" c col "t_id task"] p
    show ?thesis by simp
  qed
qed

lemma legacyLoop_unique:
  assumes "legacyLoop defs ts b = Inr b' \<or> legacyLoop defs ts b = Inl (e, b')"
    and "uniqueTaskIds (columns b)" and "distinct (map t_id ts)"
    and "columnIds (columns b) \<inter> set (map t_id ts) = {}"
  shows "uniqueTaskIds (columns b')"
  using assms
proof (induction ts arbitrary: b)
  case Nil
  then show ?case by simp
next
  case (Cons t ts)
  have f: "t_id t \<notin> columnIds (columns b)" using Cons.prems(4) by simp
  show ?case
  proof (cases "legacyTask defs t b")
    case (Inl x)
    with Cons.prems(1) have "legacyTask defs t b = Inl (e, b')" by simp
    with legacyTask_unique[of defs t b b' e] Cons.prems(2) f show ?thesis by blast
  next
    case (Inr b1)
    with legacyTask_unique[of defs t b b1 e] Cons.prems(2) f
    have u: "uniqueTaskIds (columns b1)"
      and s: "columnIds (columns b1) \<subseteq> insert (t_id t) (columnIds (columns b))" by blast+
    from Cons.prems(1) Inr
    have l: "legacyLoop defs ts b1 = Inr b' \<or> legacyLoop defs ts b1 = Inl (e, b')" by simp
    have d: "distinct (map t_id ts)" using Cons.prems(3) by simp
    have i: "columnIds (columns b1) \<inter> set (map t_id ts) = {}"
    proof -
      have "t_id t \<notin> set (map t_id ts)" using Cons.prems(3) by simp
      moreover have "columnIds (columns b) \<inter> set (map t_id ts) = {}"
        using Cons.prems(4) by auto
      ultimately show ?thesis using s by blast
    qed
    from Cons.IH[OF l u d i] show ?thesis .
  qed
qed

lemma getEmptyBoardData_unique: "uniqueTaskIds (columns (getEmptyBoardData defs))"
  by (simp add: uniqueTaskIds_no_ids getEmptyBoardData_facts)

lemma loadFromLegacyData_array_unique:
  assumes "parse raw = Some (PArray ts)" "distinct (map t_id ts)"
  shows "uniqueTaskIds (columns (boardData (loadFromLegacyData parse raw s)))"
proof -
  let ?e = "getEmptyBoardData (columnDefinitions s)"
  obtain b' where l: "(\<exists>e. legacyLoop (columnDefinitions s) ts ?e = Inl (e, b'))
        \<or> legacyLoop (columnDefinitions s) ts ?e = Inr b'"
    by (cases "legacyLoop (columnDefinitions s) ts ?e") auto
  then obtain e where "legacyLoop (columnDefinitions s) ts ?e = Inr b'
        \<or> legacyLoop (columnDefinitions s) ts ?e = Inl (e, b')" by blast
  from legacyLoop_unique[OF this getEmptyBoardData_unique assms(2)]
  have "uniqueTaskIds (columns b')" by (simp add: getEmptyBoardData_facts)
  moreover have "boardData (loadFromLegacyData parse raw s) = b'"
    using assms(1) l by (auto simp: loadFromLegacyData_def)
  ultimately show ?thesis by simp
qed

lemma example_unique: "uniqueTaskIds (columns (boardData exampleState))"
  unfolding uniqueTaskIds_def example_lookups(1)
  by (auto simp: exampleBoard_def exampleColumn_def split: if_splits)

lemma example_only_todo:
  "\<forall>c col. columns (boardData exampleState) c = Some col \<and> ''t1'' \<in> set (taskIds col)
     \<longrightarrow> c = ''todo''"
  unfolding example_lookups(1)
  by (auto simp: exampleBoard_def exampleColumn_def split: if_splits)

lemma stale_distinct:
  "case taskDataSet staleContext of
          None \<Rightarrow> True
        | Some ds \<Rightarrow> (case sortedRecordIds ds of
                       None \<Rightarrow> True
                     | Some ids \<Rightarrow> distinct (loadedIds ds ids))"
  by (simp add: staleContext_def staleDataSet_def loadedIds_def)

lemma example_stray_move:
  "columns (boardData (moveTask ''t1'' ''misc'' ''done'' exampleState)) ''todo''
     = Some (exampleColumn ''todo'' ''To Do'' [''t1''] [''Todo'', ''New'', ''Open''])"
  "columns (boardData (moveTask ''t1'' ''misc'' ''done'' exampleState)) ''done''
     = Some (exampleColumn ''done'' ''Done'' [''t1''] [''Done'', ''Completed'', ''Closed''])"
  by (simp_all add: moveTask_def example_lookups Let_def moveColumns_def exampleColumn_def)

section \<open>The change event\<close>

text \<open>
  Claim C8, as the code has it. A move is made by the \<^verbatim>\<open>drop\<close> listener, which calls
  \<^verbatim>\<open>moveTask\<close> with the task and the source column of the drag session. When that move
  succeeds, the event of \<^verbatim>\<open>getOutputs\<close> carries the task's \<^verbatim>\<open>recordId\<close> if it is a
  non-empty string and its \<^verbatim>\<open>id\<close> otherwise, the task's new status, its title, and the
  time of the call. \<^verbatim>\<open>previousStatus\<close> is read from \<^verbatim>\<open>_sourceColumnId\<close>, the field of
  the drag session: it is the source column's title as long as the session is open, and
  the empty string once \<^verbatim>\<open>dragend\<close> has closed it. The event of
  \<^verbatim>\<open>KanbanBoard/index.ts\<close> has no \<^verbatim>\<open>previousStatus\<close> at all.
\<close>

theorem getOutputs_after_move:
  assumes "draggedTaskId s = Some tid" and "sourceColumnId s = Some src"
    and "tid \<noteq> []" and "src \<noteq> []" and "tgt \<noteq> []" and "src \<noteq> tgt"
    and "columns (boardData s) src = Some sc" and "columns (boardData s) tgt = Some tc"
    and "tasks (boardData s) tid = Some t"
  shows "onDrop (Some tgt) s = moveTask tid src tgt s
       \<and> getOutputs now (onDrop (Some tgt) s) =
           Inr \<lparr>updatedTasksData = boardData (moveTask tid src tgt s),
                lastMovedTask = Some
                  \<lparr>taskId = (case recordId t of
                               None \<Rightarrow> t_id t
                             | Some r \<Rightarrow> if r = [] then t_id t else r),
                   newStatus = targetStatus tc,
                   previousStatus = Some (c_title sc),
                   title = t_title t,
                   timestamp = now\<rparr>\<rparr>
       \<and> getOutputs now (onDragEnd (onDrop (Some tgt) s)) =
           Inr \<lparr>updatedTasksData = boardData (moveTask tid src tgt s),
                lastMovedTask = Some
                  \<lparr>taskId = (case recordId t of
                               None \<Rightarrow> t_id t
                             | Some r \<Rightarrow> if r = [] then t_id t else r),
                   newStatus = targetStatus tc,
                   previousStatus = Some [],
                   title = t_title t,
                   timestamp = now\<rparr>\<rparr>
       \<and> onDrop_KB (Some tgt) s = moveTask_KB tid src tgt s
       \<and> getOutputs_KB now (onDrop_KB (Some tgt) s) =
           \<lparr>updatedTasksData = boardData (moveTask_KB tid src tgt s),
            lastMovedTask = Some
              \<lparr>taskId = (case recordId t of
                           None \<Rightarrow> t_id t
                         | Some r \<Rightarrow> if r = [] then t_id t else r),
               newStatus = targetStatus tc,
               previousStatus = None,
               title = t_title t,
               timestamp = now\<rparr>\<rparr>"
proof -
  have d: "onDrop (Some tgt) s = moveTask tid src tgt s"
    and k: "onDrop_KB (Some tgt) s = moveTask_KB tid src tgt s"
    using assms by (simp_all add: onDrop_success)
  show ?thesis
    unfolding d k
    using getOutputs_moved[OF assms(7-9) assms(6) assms(3) assms(2) assms(4), of now]
      getOutputs_moved_dragend[OF assms(7-9) assms(6) assms(3), of now]
      getOutputs_KB_moved(1)[OF assms(7-9) assms(6) assms(3), of now]
    by (simp add: taskIdentity_cases)
qed

theorem getOutputs_after_move_witness:
  "getOutputs ''2024-05-01T10:00:00.000Z'' (onDrop (Some ''done'') exampleState) =
     Inr \<lparr>updatedTasksData = boardData (moveTask ''t1'' ''todo'' ''done'' exampleState),
          lastMovedTask = Some \<lparr>taskId = ''rec-1'', newStatus = ''Done'',
            previousStatus = Some ''To Do'', title = ''Write report'',
            timestamp = ''2024-05-01T10:00:00.000Z''\<rparr>\<rparr>"
proof -
  have "''t1'' \<noteq> []" "''todo'' \<noteq> []" "''done'' \<noteq> []" "''todo'' \<noteq> ''done''"
    by simp_all
  from getOutputs_after_move[OF example_session this
      example_lookups(2)[folded example_lookups(1)] example_lookups(3)[folded example_lookups(1)]
      example_lookups(6)[folded example_lookups(1)], of "''2024-05-01T10:00:00.000Z''",
      THEN conjunct2, THEN conjunct1]
  show ?thesis
    by (simp add: exampleColumn_def exampleTask_def targetStatus_def orElse_def)
qed

text \<open>
  The claim as it stands promises the source column's title after every successful move.
  In \<open>exampleState\<close> the task \<^verbatim>\<open>t1\<close> is dragged from \<^verbatim>\<open>todo\<close>, whose title is
  \<^verbatim>\<open>"To Do"\<close>, and dropped on \<^verbatim>\<open>done\<close>; after \<^verbatim>\<open>dragend\<close> the event says
  \<^verbatim>\<open>previousStatus: ""\<close>, and the event of \<^verbatim>\<open>KanbanBoard/index.ts\<close> has none.
\<close>

theorem getOutputs_after_dragend_counterexample:
  "c_title (the (columns (boardData exampleState) ''todo'')) = ''To Do''
   \<and> getOutputs ''2024-05-01T10:00:00.000Z'' (onDragEnd (onDrop (Some ''done'') exampleState)) =
     Inr \<lparr>updatedTasksData = boardData (moveTask ''t1'' ''todo'' ''done'' exampleState),
          lastMovedTask = Some \<lparr>taskId = ''rec-1'', newStatus = ''Done'',
            previousStatus = Some '''', title = ''Write report'',
            timestamp = ''2024-05-01T10:00:00.000Z''\<rparr>\<rparr>
   \<and> previousStatus (the (lastMovedTask
         (getOutputs_KB ''2024-05-01T10:00:00.000Z'' (onDrop_KB (Some ''done'') exampleState)))) = None"
proof -
  have g: "''t1'' \<noteq> []" "''todo'' \<noteq> []" "''done'' \<noteq> []" "''todo'' \<noteq> ''done''"
    by simp_all
  note l = example_lookups(2)[folded example_lookups(1)] example_lookups(3)[folded example_lookups(1)]
      example_lookups(6)[folded example_lookups(1)]
  have d: "onDrop (Some ''done'') exampleState = moveTask ''t1'' ''todo'' ''done'' exampleState"
    "onDrop_KB (Some ''done'') exampleState = moveTask_KB ''t1'' ''todo'' ''done'' exampleState"
    using onDrop_success[OF example_session g] by simp_all
  show ?thesis
    unfolding d
    by (simp add: getOutputs_moved_dragend[OF l g(4) g(1)] getOutputs_KB_moved(1)[OF l g(4) g(1)]
          example_lookups exampleColumn_def exampleTask_def targetStatus_def orElse_def
          taskIdentity_def)
qed

section \<open>The change event is not one-shot\<close>



section \<open>Legacy data that does not parse\<close>

text \<open>
  Claim C6, as the code has it. When \<^verbatim>\<open>JSON.parse\<close> rejects the text, neither copy of
  \<^verbatim>\<open>loadFromLegacyData\<close> lets an exception out. The control with dataset support
  leaves the whole control, and so the previous board, unchanged. The copy in
  \<^verbatim>\<open>KanbanBoard/index.ts\<close> replaces the board with the sample board; this is stated for
  the default column definitions, and then for \<^verbatim>\<open>updateView\<close>, which installs them
  before it loads. Each copy has one \<^verbatim>\<open>catch\<close> block and so one policy; the two
  policies are different.
\<close>

theorem loadFromLegacyData_parse_failure:
  assumes "parse raw = None"
  shows "loadFromLegacyData parse raw s = s
       \<and> (columnDefinitions s = getDefaultColumnDefinitions \<longrightarrow>
            (\<exists>cols. loadFromLegacyData_KB parse raw s
                      = Inr (s\<lparr>boardData := \<lparr>tasks = sampleTasks_KB, columns = cols,
                                columnOrder = [''todo'', ''inprogress'', ''review'', ''done'']\<rparr>\<rparr>)
                  \<and> isSampleColumns cols))
       \<and> (\<not> datasetReady (taskDataSet ctx) \<and> tasksData ctx = Some raw \<and> raw \<noteq> [] \<longrightarrow>
            updateView parse ctx s = Inr (updateColumnDefinitions s))
       \<and> (tasksData ctx = Some raw \<and> raw \<noteq> [] \<longrightarrow>
            (\<exists>cols. updateView_KB parse ctx s
                      = Inr ((updateColumnDefinitions s)
                               \<lparr>boardData := \<lparr>tasks = sampleTasks_KB, columns = cols,
                                  columnOrder = [''todo'', ''inprogress'', ''review'', ''done'']\<rparr>\<rparr>)
                  \<and> isSampleColumns cols))"
proof -
  have 1: "\<And>s. loadFromLegacyData parse raw s = s"
    using assms by (simp add: loadFromLegacyData_def)
  have 2: "\<exists>cols. loadFromLegacyData_KB parse raw s
                      = Inr (s\<lparr>boardData := \<lparr>tasks = sampleTasks_KB, columns = cols,
                                columnOrder = [''todo'', ''inprogress'', ''review'', ''done'']\<rparr>\<rparr>)
                  \<and> isSampleColumns cols"
    if d: "columnDefinitions s = getDefaultColumnDefinitions" for s
  proof -
    obtain cols where c: "getEmptyBoardDataWithSamples_KB getDefaultColumnDefinitions
        = Inr \<lparr>tasks = sampleTasks_KB, columns = cols,
               columnOrder = [''todo'', ''inprogress'', ''review'', ''done'']\<rparr>"
      and i: "isSampleColumns cols"
      using samples_KB_default by blast
    have "loadFromLegacyData_KB parse raw s
        = Inr (s\<lparr>boardData := \<lparr>tasks = sampleTasks_KB, columns = cols,
                  columnOrder = [''todo'', ''inprogress'', ''review'', ''done'']\<rparr>\<rparr>)"
      using assms d c by (simp add: loadFromLegacyData_KB_def)
    with i show ?thesis by blast
  qed
  have 3: "updateView parse ctx s = Inr (updateColumnDefinitions s)"
    if "\<not> datasetReady (taskDataSet ctx) \<and> tasksData ctx = Some raw \<and> raw \<noteq> []"
    using that 1 by (simp add: updateView_def loadData_def truthy_def)
  have 4: "\<exists>cols. updateView_KB parse ctx s
                      = Inr ((updateColumnDefinitions s)
                               \<lparr>boardData := \<lparr>tasks = sampleTasks_KB, columns = cols,
                                  columnOrder = [''todo'', ''inprogress'', ''review'', ''done'']\<rparr>\<rparr>)
                  \<and> isSampleColumns cols"
    if t: "tasksData ctx = Some raw \<and> raw \<noteq> []"
  proof -
    have "updateView_KB parse ctx s = loadFromLegacyData_KB parse raw (updateColumnDefinitions s)"
      using t by (simp add: updateView_KB_def loadData_KB_def truthy_def)
    with 2[OF updated_defs] show ?thesis by simp
  qed
  from 1 2 3 4 show ?thesis by blast
qed

theorem loadFromLegacyData_parse_failure_witness:
  "loadFromLegacyData exampleParse ''{\"tasks\":'' exampleState = exampleState
   \<and> tasks (boardData (stateAfter (loadFromLegacyData_KB exampleParse ''{\"tasks\":'' exampleState)))
       = sampleTasks_KB
   \<and> updateView exampleParse \<lparr>taskDataSet = None, tasksData = Some ''{\"tasks\":''\<rparr> exampleState
       = Inr (updateColumnDefinitions exampleState)
   \<and> tasks (boardData (stateAfter
        (updateView_KB exampleParse \<lparr>taskDataSet = None, tasksData = Some ''{\"tasks\":''\<rparr>
           newKanbanBoard)))
       = sampleTasks_KB"
proof -
  note t = loadFromLegacyData_parse_failure[of exampleParse "''{\"tasks\":''" exampleState
      "\<lparr>taskDataSet = None, tasksData = Some ''{\"tasks\":''\<rparr>", OF exampleParse_rejects]
  note u = loadFromLegacyData_parse_failure[of exampleParse "''{\"tasks\":''" newKanbanBoard
      "\<lparr>taskDataSet = None, tasksData = Some ''{\"tasks\":''\<rparr>", OF exampleParse_rejects]
  from t[THEN conjunct1]
  have 1: "loadFromLegacyData exampleParse ''{\"tasks\":'' exampleState = exampleState" .
  from t[THEN conjunct2, THEN conjunct1] example_defs
  obtain cols where 2: "loadFromLegacyData_KB exampleParse ''{\"tasks\":'' exampleState
          = Inr (exampleState\<lparr>boardData := \<lparr>tasks = sampleTasks_KB, columns = cols,
                     columnOrder = [''todo'', ''inprogress'', ''review'', ''done'']\<rparr>\<rparr>)"
    by blast
  from t[THEN conjunct2, THEN conjunct2, THEN conjunct1]
  have 3: "updateView exampleParse \<lparr>taskDataSet = None, tasksData = Some ''{\"tasks\":''\<rparr>
      exampleState = Inr (updateColumnDefinitions exampleState)"
    by (simp add: datasetReady_def)
  from u[THEN conjunct2, THEN conjunct2, THEN conjunct2]
  obtain cols' where 4: "updateView_KB exampleParse
        \<lparr>taskDataSet = None, tasksData = Some ''{\"tasks\":''\<rparr> newKanbanBoard
          = Inr ((updateColumnDefinitions newKanbanBoard)
                   \<lparr>boardData := \<lparr>tasks = sampleTasks_KB, columns = cols',
                      columnOrder = [''todo'', ''inprogress'', ''review'', ''done'']\<rparr>\<rparr>)"
    by auto
  from 1 2 3 4 show ?thesis by (simp add: stateAfter_def)
qed

text \<open>
  The claim as it stands asks for the same policy on every code path. On the board of
  \<open>exampleState\<close>, which has no task \<^verbatim>\<open>task-1\<close>, and the text \<^verbatim>\<open>{"tasks":\<close>, one
  copy keeps the board and the other loads the samples.
\<close>

theorem loadFromLegacyData_policies_counterexample:
  "exampleParse ''{\"tasks\":'' = None
   \<and> tasks (boardData (loadFromLegacyData exampleParse ''{\"tasks\":'' exampleState)) ''task-1''
       = None
   \<and> tasks (boardData (stateAfter (loadFromLegacyData_KB exampleParse ''{\"tasks\":'' exampleState)))
        ''task-1'' \<noteq> None"
proof -
  obtain cols where c: "getEmptyBoardDataWithSamples_KB getDefaultColumnDefinitions
      = Inr \<lparr>tasks = sampleTasks_KB, columns = cols,
             columnOrder = [''todo'', ''inprogress'', ''review'', ''done'']\<rparr>"
    using samples_KB_default by blast
  have k: "sampleTasks_KB ''task-1'' \<noteq> None"
    using dom_sampleTasks(2) by blast
  have e: "tasks (boardData exampleState) ''task-1'' = None"
    by (simp add: exampleState_def exampleBoard_def)
  show ?thesis
    using c k e
    by (simp add: exampleParse_rejects loadFromLegacyData_def loadFromLegacyData_KB_def example_defs
          stateAfter_def)
qed

section \<open>A dataset that yields no task\<close>

text \<open>
  Claim C9. \<^verbatim>\<open>loadData\<close> rebuilds the board from the dataset when the dataset is
  loaded and lists at least one record id. When that rebuild returns with an empty task
  map, \<^verbatim>\<open>loadData\<close> replaces the board with the sample board: the six sample tasks in
  the four default columns. This is stated for \<^verbatim>\<open>loadData\<close> under the default column
  definitions, and for \<^verbatim>\<open>updateView\<close>, which installs them before it calls
  \<^verbatim>\<open>loadData\<close>.
\<close>

theorem loadData_zero_tasks_samples:
  assumes "datasetReady (taskDataSet ctx)"
    and "dom (tasks (boardData s1)) = {}"
  shows "(loadFromDataset ctx s = Inr s1 \<and> columnDefinitions s = getDefaultColumnDefinitions
          \<longrightarrow> (\<exists>cols. loadData parse ctx s
                  = Inr (s\<lparr>boardData := \<lparr>tasks = sampleTasks, columns = cols,
                           columnOrder = [''todo'', ''inprogress'', ''review'', ''done'']\<rparr>\<rparr>)
                \<and> isSampleColumns cols))
       \<and> (loadFromDataset ctx (updateColumnDefinitions s) = Inr s1
          \<longrightarrow> (\<exists>cols. updateView parse ctx s
                  = Inr ((updateColumnDefinitions s)
                           \<lparr>boardData := \<lparr>tasks = sampleTasks, columns = cols,
                              columnOrder = [''todo'', ''inprogress'', ''review'', ''done'']\<rparr>\<rparr>)
                \<and> isSampleColumns cols))
       \<and> dom sampleTasks
            = {''task-1'', ''task-2'', ''task-3'', ''task-4'', ''task-5'', ''task-6''}"
proof (intro conjI impI)
  assume "loadFromDataset ctx s = Inr s1 \<and> columnDefinitions s = getDefaultColumnDefinitions"
  then show "\<exists>cols. loadData parse ctx s
                  = Inr (s\<lparr>boardData := \<lparr>tasks = sampleTasks, columns = cols,
                           columnOrder = [''todo'', ''inprogress'', ''review'', ''done'']\<rparr>\<rparr>)
                \<and> isSampleColumns cols"
    using loadData_no_tasks[OF assms(1) _ assms(2)] by blast
next
  assume "loadFromDataset ctx (updateColumnDefinitions s) = Inr s1"
  from loadData_no_tasks[OF assms(1) this assms(2) updated_defs]
  show "\<exists>cols. updateView parse ctx s
                  = Inr ((updateColumnDefinitions s)
                           \<lparr>boardData := \<lparr>tasks = sampleTasks, columns = cols,
                              columnOrder = [''todo'', ''inprogress'', ''review'', ''done'']\<rparr>\<rparr>)
                \<and> isSampleColumns cols"
    by (simp add: updateView_def)
next
  show "dom sampleTasks
            = {''task-1'', ''task-2'', ''task-3'', ''task-4'', ''task-5'', ''task-6''}"
    by (rule dom_sampleTasks(1))
qed

theorem loadData_zero_tasks_samples_witness:
  "tasks (boardData (stateAfter (loadData exampleParse harnessContext exampleState))) = sampleTasks
   \<and> tasks (boardData (stateAfter (updateView exampleParse harnessContext newKanbanBoard)))
       = sampleTasks
   \<and> sampleTasks ''task-1'' \<noteq> None"
proof -
  have e: "dom (tasks (boardData (exampleState\<lparr>boardData := exampleBoard\<lparr>tasks := Map.empty,
              columns := clearTaskIds (columns exampleBoard)\<rparr>\<rparr>))) = {}"
    by simp
  from loadData_zero_tasks_samples[OF harness_ready e, of exampleState exampleParse, THEN conjunct1]
    harness_load example_defs
  obtain cols where 1: "loadData exampleParse harnessContext exampleState
           = Inr (exampleState\<lparr>boardData := \<lparr>tasks = sampleTasks, columns = cols,
                     columnOrder = [''todo'', ''inprogress'', ''review'', ''done'']\<rparr>\<rparr>)"
    by blast
  have f: "dom (tasks (boardData ((updateColumnDefinitions newKanbanBoard)
              \<lparr>boardData := (getEmptyBoardData [])\<lparr>tasks := Map.empty,
                  columns := clearTaskIds (columns (getEmptyBoardData []))\<rparr>\<rparr>))) = {}"
    by simp
  from loadData_zero_tasks_samples[OF harness_ready f, of newKanbanBoard exampleParse,
      THEN conjunct2, THEN conjunct1] harness_first_load
  obtain cols' where 2: "updateView exampleParse harnessContext newKanbanBoard
           = Inr ((updateColumnDefinitions newKanbanBoard)
                    \<lparr>boardData := \<lparr>tasks = sampleTasks, columns = cols',
                       columnOrder = [''todo'', ''inprogress'', ''review'', ''done'']\<rparr>\<rparr>)"
    by blast
  have "sampleTasks ''task-1'' \<noteq> None"
    using dom_sampleTasks(1) by blast
  with 1 2 show ?thesis by (simp add: stateAfter_def)
qed

section \<open>Reconciliation with the tasks held before the load\<close>

text \<open>
  Claim C2. Let a dataset load return, and take a record that the load does not skip and
  that no later such record of the dataset shares its task id with. The task stored under
  that id is decided by the task held under the same id before the load, and by nothing
  else. If no task was held, or the held task is not flagged \<^verbatim>\<open>isOptimistic\<close>, the stored
  task is the incoming task as it was built from the record. If the held task is
  optimistic and the incoming status differs from the held status, the stored task is the
  incoming one with the held status and \<^verbatim>\<open>isOptimistic\<close> true. If the held task is
  optimistic and the two statuses are equal, the stored task is the incoming one with
  \<^verbatim>\<open>isOptimistic\<close> false. The id of the task is in the list of the column that
  classifies the stored status, whenever the board has that column.
\<close>

theorem reconciliation_rule:
  assumes "taskDataSet ctx = Some ds" and "sortedRecordIds ds = Some (pre @ rid # post)"
    and "loadFromDataset ctx s = Inr s'"
    and "\<not> isHarnessMock ds rid"
    and "\<forall>rid' \<in> set post. isHarnessMock ds rid'
           \<or> t_id (buildTask ds rid') \<noteq> t_id (buildTask ds rid)"
  shows "\<exists>r. tasks (boardData s') (t_id (buildTask ds rid)) = Some r
     \<and> (case tasks (boardData s) (t_id (buildTask ds rid)) of
          None \<Rightarrow> r = buildTask ds rid
        | Some held \<Rightarrow>
            if isOptimistic held \<noteq> Some True then r = buildTask ds rid
            else if status (buildTask ds rid) \<noteq> status held
              then r = (buildTask ds rid)\<lparr>status := status held, isOptimistic := Some True\<rparr>
              else r = (buildTask ds rid)\<lparr>isOptimistic := Some False\<rparr>)
     \<and> (\<forall>c col. getColumnIdByStatus (columnDefinitions s) (status r) = Some c \<and> c \<noteq> []
            \<and> columns (boardData s) c = Some col
          \<longrightarrow> (\<exists>col'. columns (boardData s') c = Some col'
                  \<and> t_id (buildTask ds rid) \<in> set (taskIds col')))"
proof -
  let ?prev = "tasks (boardData s)"
  let ?r = "loadedTask ?prev ds rid"
  obtain tk cols where loop: "datasetLoop (columnDefinitions s) ?prev
            (columnOrder (boardData s)) ds (pre @ rid # post)
            (Map.empty, clearTaskIds (columns (boardData s)))
            = Inr (tk, cols)"
    and s': "s' = s\<lparr>boardData := (boardData s)\<lparr>tasks := tk, columns := cols\<rparr>\<rparr>"
    using loadFromDataset_Inr_loop[OF assms(1-3)] by blast
  have u: "\<forall>rid' \<in> set post. isHarnessMock ds rid'
           \<or> t_id (loadedTask ?prev ds rid') \<noteq> t_id (loadedTask ?prev ds rid)"
    using assms(5) by (simp add: t_id_loadedTask)
  have 1: "tasks (boardData s') (t_id (buildTask ds rid)) = Some ?r"
    using datasetLoop_tasks_last[OF loop assms(4) u] s' by (simp add: t_id_loadedTask)
  have 2: "(case ?prev (t_id (buildTask ds rid)) of
          None \<Rightarrow> ?r = buildTask ds rid
        | Some held \<Rightarrow>
            if isOptimistic held \<noteq> Some True then ?r = buildTask ds rid
            else if status (buildTask ds rid) \<noteq> status held
              then ?r = (buildTask ds rid)\<lparr>status := status held, isOptimistic := Some True\<rparr>
              else ?r = (buildTask ds rid)\<lparr>isOptimistic := Some False\<rparr>)"
    unfolding loadedTask_reconcile by (rule reconcile_cases)
  have m: "rid \<in> set (pre @ rid # post)" by simp
  have 3: "\<forall>c col. getColumnIdByStatus (columnDefinitions s) (status ?r) = Some c \<and> c \<noteq> []
            \<and> columns (boardData s) c = Some col
          \<longrightarrow> (\<exists>col'. columns (boardData s') c = Some col'
                  \<and> t_id (buildTask ds rid) \<in> set (taskIds col'))"
  proof (intro allI impI)
    fix c col
    assume a: "getColumnIdByStatus (columnDefinitions s) (status ?r) = Some c \<and> c \<noteq> []
            \<and> columns (boardData s) c = Some col"
    then have "clearTaskIds (columns (boardData s)) c = Some (col\<lparr>taskIds := []\<rparr>)"
      by (simp add: clearTaskIds_def)
    from datasetLoop_classified[OF loop m assms(4) _ _ this] a
    show "\<exists>col'. columns (boardData s') c = Some col'
                  \<and> t_id (buildTask ds rid) \<in> set (taskIds col')"
      using s' by (simp add: t_id_loadedTask)
  qed
  from 1 2 3 show ?thesis by blast
qed

theorem reconciliation_rule_witness:
  "\<exists>s'. loadFromDataset staleContext (moveTask ''t1'' ''todo'' ''done'' exampleState) = Inr s'
     \<and> (\<exists>r. tasks (boardData s') ''t1'' = Some r \<and> status r = ''Done''
            \<and> isOptimistic r = Some True)
     \<and> (\<exists>col. columns (boardData s') ''done'' = Some col \<and> ''t1'' \<in> set (taskIds col))"
proof -
  let ?s = "moveTask ''t1'' ''todo'' ''done'' exampleState"
  have "firstColumnPresent (boardData ?s)"
    by (simp add: firstColumnPresent_def moved_example)
  then obtain s' where l: "loadFromDataset staleContext ?s = Inr s'"
    using loadFromDataset_returns by blast
  have u: "\<forall>rid' \<in> set []. isHarnessMock staleDataSet rid'
        \<or> t_id (buildTask staleDataSet rid') \<noteq> t_id (buildTask staleDataSet ''rec-1'')"
    by simp
  from reconciliation_rule[OF stale_example(1,2) l stale_example(3) u]
  obtain r where 1: "tasks (boardData s') (t_id (buildTask staleDataSet ''rec-1'')) = Some r"
    and 2: "(case tasks (boardData ?s) (t_id (buildTask staleDataSet ''rec-1'')) of
          None \<Rightarrow> r = buildTask staleDataSet ''rec-1''
        | Some held \<Rightarrow>
            if isOptimistic held \<noteq> Some True then r = buildTask staleDataSet ''rec-1''
            else if status (buildTask staleDataSet ''rec-1'') \<noteq> status held
              then r = (buildTask staleDataSet ''rec-1'')\<lparr>status := status held, isOptimistic := Some True\<rparr>
              else r = (buildTask staleDataSet ''rec-1'')\<lparr>isOptimistic := Some False\<rparr>)"
    and 3: "\<forall>c col. getColumnIdByStatus (columnDefinitions ?s) (status r) = Some c \<and> c \<noteq> []
            \<and> columns (boardData ?s) c = Some col
          \<longrightarrow> (\<exists>col'. columns (boardData s') c = Some col'
                  \<and> t_id (buildTask staleDataSet ''rec-1'') \<in> set (taskIds col'))"
    by blast
  from 1 2 have r: "tasks (boardData s') ''t1'' = Some r \<and> status r = ''Done''
      \<and> isOptimistic r = Some True"
    by (simp add: stale_example moved_example)
  have d: "columnDefinitions ?s = getDefaultColumnDefinitions"
    by (simp add: moveTask_def example_lookups Let_def exampleState_def)
  have c: "columns (boardData ?s) ''done''
      = Some ((exampleColumn ''done'' ''Done'' [] [''Done'', ''Completed'', ''Closed''])
                \<lparr>taskIds := [''t1'']\<rparr>)"
    by (simp add: moveTask_def example_lookups Let_def moveColumns_def exampleColumn_def)
  have "''done'' \<noteq> []" by simp
  with 3 r d c classify_Done
  have "\<exists>col'. columns (boardData s') ''done'' = Some col'
                  \<and> t_id (buildTask staleDataSet ''rec-1'') \<in> set (taskIds col')"
    by metis
  with r l show ?thesis by (auto simp: stale_example)
qed

section \<open>No dangling ids\<close>




section \<open>A task id in at most one column, at most once\<close>

text \<open>
  Claim C3, as the code has it. The empty board has the property: no list has an id. A
  move keeps it when the moved id occurs in no column other than the source column; this
  covers the moves that do nothing and holds for the \<^verbatim>\<open>moveTask\<close> of both copies of
  \<^verbatim>\<open>index.ts\<close>. A dataset load clears the lists and establishes the property when the
  records that it does not skip have pairwise different task ids, also when the load
  throws on the way. A legacy load of a flat array establishes it when the tasks of the
  array have pairwise different ids. A legacy object that brings \<^verbatim>\<open>columns\<close> has them
  adopted as they are, so the board has the property exactly when they have it; an object
  without \<^verbatim>\<open>columns\<close>, a number, string or boolean gives the empty columns; a text that
  does not parse, and the value \<^verbatim>\<open>null\<close>, leave the control as it was.
\<close>

theorem unique_task_ids:
  "uniqueTaskIds (columns (getEmptyBoardData defs))
   \<and> (uniqueTaskIds (columns (boardData s))
        \<and> (\<forall>c col. columns (boardData s) c = Some col \<and> tid \<in> set (taskIds col) \<longrightarrow> c = src)
      \<longrightarrow> uniqueTaskIds (columns (boardData (moveTask tid src tgt s)))
          \<and> uniqueTaskIds (columns (boardData (moveTask_KB tid src tgt s))))
   \<and> ((case taskDataSet ctx of
          None \<Rightarrow> True
        | Some ds \<Rightarrow> (case sortedRecordIds ds of
                       None \<Rightarrow> True
                     | Some ids \<Rightarrow> distinct (loadedIds ds ids)))
      \<longrightarrow> uniqueTaskIds (columns (boardData (stateAfter (loadFromDataset ctx s)))))
   \<and> (parse raw = Some (PArray ts) \<and> distinct (map t_id ts)
      \<longrightarrow> uniqueTaskIds (columns (boardData (loadFromLegacyData parse raw s))))
   \<and> (parse raw = Some (PObject t (Some c') ord)
      \<longrightarrow> columns (boardData (loadFromLegacyData parse raw s)) = c')
   \<and> (parse raw = Some (PObject t None ord) \<or> parse raw = Some PScalar
      \<longrightarrow> uniqueTaskIds (columns (boardData (loadFromLegacyData parse raw s))))
   \<and> (parse raw = None \<or> parse raw = Some PNull \<longrightarrow> loadFromLegacyData parse raw s = s)"
proof (intro conjI impI)
  show "uniqueTaskIds (columns (getEmptyBoardData defs))"
    by (rule getEmptyBoardData_unique)
next
  assume a: "uniqueTaskIds (columns (boardData s))
        \<and> (\<forall>c col. columns (boardData s) c = Some col \<and> tid \<in> set (taskIds col) \<longrightarrow> c = src)"
  then show "uniqueTaskIds (columns (boardData (moveTask tid src tgt s)))"
    using moveTask_unique by blast
  then show "uniqueTaskIds (columns (boardData (moveTask_KB tid src tgt s)))"
    by (simp add: moveTask_KB_columns)
next
  assume "case taskDataSet ctx of
          None \<Rightarrow> True
        | Some ds \<Rightarrow> (case sortedRecordIds ds of
                       None \<Rightarrow> True
                     | Some ids \<Rightarrow> distinct (loadedIds ds ids))"
  then show "uniqueTaskIds (columns (boardData (stateAfter (loadFromDataset ctx s))))"
    by (rule loadFromDataset_unique)
next
  assume "parse raw = Some (PArray ts) \<and> distinct (map t_id ts)"
  then show "uniqueTaskIds (columns (boardData (loadFromLegacyData parse raw s)))"
    using loadFromLegacyData_array_unique by blast
next
  assume "parse raw = Some (PObject t (Some c') ord)"
  then show "columns (boardData (loadFromLegacyData parse raw s)) = c'"
    by (simp add: loadFromLegacyData_object)
next
  assume "parse raw = Some (PObject t None ord) \<or> parse raw = Some PScalar"
  then have "columns (boardData (loadFromLegacyData parse raw s))
      = columns (getEmptyBoardData (columnDefinitions s))"
  proof
    assume "parse raw = Some (PObject t None ord)"
    with loadFromLegacyData_object[of parse raw t None ord s] show ?thesis by simp
  next
    assume "parse raw = Some PScalar"
    then show ?thesis by (simp add: loadFromLegacyData_def)
  qed
  then show "uniqueTaskIds (columns (boardData (loadFromLegacyData parse raw s)))"
    by (simp add: getEmptyBoardData_unique)
next
  assume "parse raw = None \<or> parse raw = Some PNull"
  then show "loadFromLegacyData parse raw s = s"
    by (auto simp: loadFromLegacyData_def)
qed

theorem unique_task_ids_witness:
  "uniqueTaskIds (columns (boardData (moveTask ''t1'' ''todo'' ''done'' exampleState)))
   \<and> uniqueTaskIds (columns (boardData (stateAfter (loadFromDataset staleContext exampleState))))
   \<and> uniqueTaskIds (columns (boardData (loadFromLegacyData exampleParse ''[]'' exampleState)))
   \<and> columns (boardData (loadFromLegacyData exampleParse ghostBundle exampleState))
       = [''todo'' \<mapsto> exampleColumn ''todo'' ''To Do'' [''ghost''] [''Todo'']]
   \<and> uniqueTaskIds (columns (boardData (loadFromLegacyData exampleParse ''42'' exampleState)))
   \<and> loadFromLegacyData exampleParse ''null'' exampleState = exampleState"
proof -
  note t = unique_task_ids[of "[]" exampleState "''t1''" "''todo''" "''done''" staleContext
      exampleParse "''[]''" "[]" None Map.empty None]
  from t[THEN conjunct2, THEN conjunct1] example_unique example_only_todo
  have 1: "uniqueTaskIds (columns (boardData (moveTask ''t1'' ''todo'' ''done'' exampleState)))"
    by blast
  from t[THEN conjunct2, THEN conjunct2, THEN conjunct1] stale_distinct
  have 2: "uniqueTaskIds (columns (boardData (stateAfter (loadFromDataset staleContext exampleState))))"
    by blast
  from t[THEN conjunct2, THEN conjunct2, THEN conjunct2, THEN conjunct1] exampleParse_values(1)
  have 3: "uniqueTaskIds (columns (boardData (loadFromLegacyData exampleParse ''[]'' exampleState)))"
    by simp
  from unique_task_ids[of "[]" exampleState "''t1''" "''todo''" "''done''" staleContext
      exampleParse ghostBundle "[]" None
      "[''todo'' \<mapsto> exampleColumn ''todo'' ''To Do'' [''ghost''] [''Todo'']]" None,
      THEN conjunct2, THEN conjunct2, THEN conjunct2, THEN conjunct2, THEN conjunct1]
    exampleParse_values(2)
  have 4: "columns (boardData (loadFromLegacyData exampleParse ghostBundle exampleState))
       = [''todo'' \<mapsto> exampleColumn ''todo'' ''To Do'' [''ghost''] [''Todo'']]"
    by simp
  from unique_task_ids[of "[]" exampleState "''t1''" "''todo''" "''done''" staleContext
      exampleParse "''42''" "[]" None Map.empty None,
      THEN conjunct2, THEN conjunct2, THEN conjunct2, THEN conjunct2, THEN conjunct2, THEN conjunct1]
    exampleParse_more(1)
  have 5: "uniqueTaskIds (columns (boardData (loadFromLegacyData exampleParse ''42'' exampleState)))"
    by simp
  from unique_task_ids[of "[]" exampleState "''t1''" "''todo''" "''done''" staleContext
      exampleParse "''null''" "[]" None Map.empty None,
      THEN conjunct2, THEN conjunct2, THEN conjunct2, THEN conjunct2, THEN conjunct2, THEN conjunct2]
    exampleParse_more(2)
  have 6: "loadFromLegacyData exampleParse ''null'' exampleState = exampleState"
    by simp
  from 1 2 3 4 5 6 show ?thesis by simp
qed

text \<open>
  The claim as it stands covers \<^verbatim>\<open>moveTask\<close> with any arguments. In \<open>exampleState\<close>
  the task \<^verbatim>\<open>t1\<close> is in the column \<^verbatim>\<open>todo\<close>. Moved from \<^verbatim>\<open>misc\<close>, where
  \<^verbatim>\<open>indexOf\<close> does not find it, to \<^verbatim>\<open>done\<close>, it is appended to \<^verbatim>\<open>done\<close> and stays in
  \<^verbatim>\<open>todo\<close>.
\<close>

theorem moveTask_duplicates_counterexample:
  "uniqueTaskIds (columns (boardData exampleState))
   \<and> taskIds (the (columns (boardData (moveTask ''t1'' ''misc'' ''done'' exampleState)) ''todo''))
       = [''t1'']
   \<and> taskIds (the (columns (boardData (moveTask ''t1'' ''misc'' ''done'' exampleState)) ''done''))
       = [''t1'']
   \<and> \<not> uniqueTaskIds (columns (boardData (moveTask ''t1'' ''misc'' ''done'' exampleState)))"
proof -
  have "\<not> uniqueTaskIds (columns (boardData (moveTask ''t1'' ''misc'' ''done'' exampleState)))"
  proof
    assume "uniqueTaskIds (columns (boardData (moveTask ''t1'' ''misc'' ''done'' exampleState)))"
    then have "\<forall>c1 c2 col1 col2.
        columns (boardData (moveTask ''t1'' ''misc'' ''done'' exampleState)) c1 = Some col1 \<longrightarrow>
        columns (boardData (moveTask ''t1'' ''misc'' ''done'' exampleState)) c2 = Some col2 \<longrightarrow>
        c1 \<noteq> c2 \<longrightarrow> set (taskIds col1) \<inter> set (taskIds col2) = {}"
      unfolding uniqueTaskIds_def by (rule conjunct2)
    moreover have "''todo'' \<noteq> ''done''" by simp
    ultimately
    have "set (taskIds (exampleColumn ''todo'' ''To Do'' [''t1''] [''Todo'', ''New'', ''Open'']))
        \<inter> set (taskIds (exampleColumn ''done'' ''Done'' [''t1''] [''Done'', ''Completed'', ''Closed'']))
        = {}"
      using example_stray_move by blast
    then show False by (simp add: exampleColumn_def)
  qed
  then show ?thesis
    using example_unique by (simp add: example_stray_move exampleColumn_def)
qed


end
